theory Spec2Isabelle
  imports Main "HOL-Library.Word"
begin

unbundle bit_operations_syntax

section \<open>Astronode modem driver (modem_astronode.py)\<close>

text \<open>
  A shallow embedding of the protocol codec and transaction engine of the MicroPython
  driver. A Python \<open>bytes\<close> object is a list of 8-bit words, a Python \<open>str\<close> is a
  \<^typ>\<open>string\<close> (MicroPython keeps a \<open>str\<close> as its UTF-8 bytes), Python integers that
  never go negative in this file (opcodes, CRC accumulator, status codes) are \<^typ>\<open>nat\<close>.
  An exception raised by the Python code is the \<open>Inl\<close> branch of a sum.
\<close>

type_synonym byte = "8 word"

datatype py_error = ValueError | UnicodeError | IndexError | TypeError | AttributeError

subsection \<open>Checksum engine\<close>

definition crc_table :: "nat list" where
  "crc_table =
   [0x0000, 0x1021, 0x2042, 0x3063, 0x4084, 0x50A5, 0x60C6, 0x70E7,
    0x8108, 0x9129, 0xA14A, 0xB16B, 0xC18C, 0xD1AD, 0xE1CE, 0xF1EF,
    0x1231, 0x0210, 0x3273, 0x2252, 0x52B5, 0x4294, 0x72F7, 0x62D6,
    0x9339, 0x8318, 0xB37B, 0xA35A, 0xD3BD, 0xC39C, 0xF3FF, 0xE3DE,
    0x2462, 0x3443, 0x0420, 0x1401, 0x64E6, 0x74C7, 0x44A4, 0x5485,
    0xA56A, 0xB54B, 0x8528, 0x9509, 0xE5EE, 0xF5CF, 0xC5AC, 0xD58D,
    0x3653, 0x2672, 0x1611, 0x0630, 0x76D7, 0x66F6, 0x5695, 0x46B4,
    0xB75B, 0xA77A, 0x9719, 0x8738, 0xF7DF, 0xE7FE, 0xD79D, 0xC7BC,
    0x48C4, 0x58E5, 0x6886, 0x78A7, 0x0840, 0x1861, 0x2802, 0x3823,
    0xC9CC, 0xD9ED, 0xE98E, 0xF9AF, 0x8948, 0x9969, 0xA90A, 0xB92B,
    0x5AF5, 0x4AD4, 0x7AB7, 0x6A96, 0x1A71, 0x0A50, 0x3A33, 0x2A12,
    0xDBFD, 0xCBDC, 0xFBBF, 0xEB9E, 0x9B79, 0x8B58, 0xBB3B, 0xAB1A,
    0x6CA6, 0x7C87, 0x4CE4, 0x5CC5, 0x2C22, 0x3C03, 0x0C60, 0x1C41,
    0xEDAE, 0xFD8F, 0xCDEC, 0xDDCD, 0xAD2A, 0xBD0B, 0x8D68, 0x9D49,
    0x7E97, 0x6EB6, 0x5ED5, 0x4EF4, 0x3E13, 0x2E32, 0x1E51, 0x0E70,
    0xFF9F, 0xEFBE, 0xDFDD, 0xCFFC, 0xBF1B, 0xAF3A, 0x9F59, 0x8F78,
    0x9188, 0x81A9, 0xB1CA, 0xA1EB, 0xD10C, 0xC12D, 0xF14E, 0xE16F,
    0x1080, 0x00A1, 0x30C2, 0x20E3, 0x5004, 0x4025, 0x7046, 0x6067,
    0x83B9, 0x9398, 0xA3FB, 0xB3DA, 0xC33D, 0xD31C, 0xE37F, 0xF35E,
    0x02B1, 0x1290, 0x22F3, 0x32D2, 0x4235, 0x5214, 0x6277, 0x7256,
    0xB5EA, 0xA5CB, 0x95A8, 0x8589, 0xF56E, 0xE54F, 0xD52C, 0xC50D,
    0x34E2, 0x24C3, 0x14A0, 0x0481, 0x7466, 0x6447, 0x5424, 0x4405,
    0xA7DB, 0xB7FA, 0x8799, 0x97B8, 0xE75F, 0xF77E, 0xC71D, 0xD73C,
    0x26D3, 0x36F2, 0x0691, 0x16B0, 0x6657, 0x7676, 0x4615, 0x5634,
    0xD94C, 0xC96D, 0xF90E, 0xE92F, 0x99C8, 0x89E9, 0xB98A, 0xA9AB,
    0x5844, 0x4865, 0x7806, 0x6827, 0x18C0, 0x08E1, 0x3882, 0x28A3,
    0xCB7D, 0xDB5C, 0xEB3F, 0xFB1E, 0x8BF9, 0x9BD8, 0xABBB, 0xBB9A,
    0x4A75, 0x5A54, 0x6A37, 0x7A16, 0x0AF1, 0x1AD0, 0x2AB3, 0x3A92,
    0xFD2E, 0xED0F, 0xDD6C, 0xCD4D, 0xBDAA, 0xAD8B, 0x9DE8, 0x8DC9,
    0x7C26, 0x6C07, 0x5C64, 0x4C45, 0x3CA2, 0x2C83, 0x1CE0, 0x0CC1,
    0xEF1F, 0xFF3E, 0xCF5D, 0xDF7C, 0xAF9B, 0xBFBA, 0x8FD9, 0x9FF8,
    0x6E17, 0x7E36, 0x4E55, 0x5E74, 0x2E93, 0x3EB2, 0x0ED1, 0x1EF0]"

text \<open>
  One pass of the loop body of \<open>_crc16\<close>:
  \<open>crc = (crc << 8) ^ table[(crc >> 8) ^ byte]; crc &= 0xFFFF\<close>.
  The table lookup is written with \<open>!\<close>: the index stays below 256 for every
  accumulator the loop reaches (lemma \<open>crc16_index_in_table\<close> below), so the
  \<open>IndexError\<close> of an index outside the table cannot occur.
\<close>

definition crc16_step :: "nat \<Rightarrow> byte \<Rightarrow> nat" where
  "crc16_step crc b =
     ((push_bit 8 crc) XOR (crc_table ! ((drop_bit 8 crc) XOR unat b))) AND 0xFFFF"

text \<open>\<open>_crc16\<close>: the accumulator starts at \<open>0xFFFF\<close> and is folded over the data.\<close>

definition crc16 :: "byte list \<Rightarrow> nat" where
  "crc16 data = foldl crc16_step 0xFFFF data"

subsection \<open>Conversions between bytes, text and hexadecimal\<close>

text \<open>
  \<open>str.encode()\<close> and \<open>bytes.decode()\<close>. MicroPython's \<open>str\<close> constructor checks the
  UTF-8 structure of the bytes (a lead byte is followed by the continuation bytes it
  announces) and raises \<open>UnicodeError\<close> otherwise; the text keeps the same bytes.
\<close>

definition str_encode :: "string \<Rightarrow> byte list" where
  "str_encode s = map of_char s"

fun utf8_check :: "nat \<Rightarrow> byte list \<Rightarrow> bool" where
  "utf8_check need [] = (need = 0)"
| "utf8_check need (c # cs) =
     (if need \<noteq> 0 then
        (if 0x80 \<le> c \<and> c < 0xC0 then utf8_check (need - 1) cs else False)
      else if 0xC0 \<le> c then
        (if 0xF8 \<le> c then False
         else utf8_check (if c < 0xE0 then 1 else if c < 0xF0 then 2 else 3) cs)
      else if 0x80 \<le> c then False
      else utf8_check 0 cs)"

definition char_of_byte :: "byte \<Rightarrow> char" where
  "char_of_byte b = char_of (unat b)"

definition bytes_decode :: "byte list \<Rightarrow> py_error + string" where
  "bytes_decode bs =
     (if utf8_check 0 bs then Inr (map char_of_byte bs) else Inl UnicodeError)"

text \<open>\<open>bytes.upper()\<close>: the ASCII letters \<open>a\<close> to \<open>z\<close> become \<open>A\<close> to \<open>Z\<close>.\<close>

definition byte_upper :: "byte \<Rightarrow> byte" where
  "byte_upper b = (if 0x61 \<le> b \<and> b \<le> 0x7A then b - 0x20 else b)"

definition bytes_upper :: "byte list \<Rightarrow> byte list" where
  "bytes_upper bs = map byte_upper bs"

text \<open>
  Hexadecimal digits of a number, most significant first, as the \<open>X\<close> (upper case) and
  \<open>x\<close> (lower case) conversions print them.
\<close>

definition hex_char :: "bool \<Rightarrow> nat \<Rightarrow> char" where
  "hex_char upper d =
     (if upper then ''0123456789ABCDEF'' else ''0123456789abcdef'') ! d"

fun hex_str :: "bool \<Rightarrow> nat \<Rightarrow> string" where
  "hex_str upper n =
     (if n < 16 then [hex_char upper n]
      else hex_str upper (n div 16) @ [hex_char upper (n mod 16)])"

declare hex_str.simps [simp del]

definition zero_pad :: "nat \<Rightarrow> string \<Rightarrow> string" where
  "zero_pad w s = replicate (w - length s) (CHR ''0'') @ s"

text \<open>\<open>"%0.2X" % opcode\<close> and \<open>'{:04X}'.format(crc)\<close>.\<close>

definition fmt_02X :: "nat \<Rightarrow> string" where
  "fmt_02X n = zero_pad 2 (hex_str True n)"

definition fmt_04X :: "nat \<Rightarrow> string" where
  "fmt_04X n = zero_pad 4 (hex_str True n)"

text \<open>
  \<open>text_to_hex(text) = ubinascii.hexlify(text).decode('ascii')\<close>: two lower-case
  hexadecimal digits for each byte. The digits are ASCII, so the decoding cannot fail.
\<close>

definition text_to_hex :: "byte list \<Rightarrow> string" where
  "text_to_hex bs =
     concat (map (\<lambda>b. [hex_char False (unat b div 16), hex_char False (unat b mod 16)]) bs)"

text \<open>
  \<open>ubinascii.unhexlify\<close>: \<open>ValueError\<close> on a text of odd length and on a character that
  is not a hexadecimal digit; digits of both cases are accepted.
\<close>

definition xdigit_value :: "char \<Rightarrow> nat option" where
  "xdigit_value c =
     (let n = (of_char c :: nat) in
      if 48 \<le> n \<and> n \<le> 57 then Some (n - 48)
      else if 65 \<le> n \<and> n \<le> 70 then Some (n - 55)
      else if 97 \<le> n \<and> n \<le> 102 then Some (n - 87)
      else None)"

fun unhexlify :: "string \<Rightarrow> py_error + byte list" where
  "unhexlify [] = Inr []"
| "unhexlify [c] = Inl ValueError"
| "unhexlify (c # d # cs) =
     (case (xdigit_value c, xdigit_value d) of
        (Some h, Some l) \<Rightarrow>
          (case unhexlify cs of
             Inl e \<Rightarrow> Inl e
           | Inr bs \<Rightarrow> Inr (word_of_nat (h * 16 + l) # bs))
      | _ \<Rightarrow> Inl ValueError)"

subsection \<open>Frame codec\<close>

text \<open>
  \<open>_generate_crc\<close>: the CRC of the bytes the hexadecimal text denotes, printed as four
  upper-case digits, the two bytes swapped (characters 2, 3, 0, 1).
\<close>

definition generate_crc :: "string \<Rightarrow> py_error + string" where
  "generate_crc data =
     (case unhexlify data of
        Inl e \<Rightarrow> Inl e
      | Inr bs \<Rightarrow>
          (let crc_tmp = fmt_04X (crc16 bs)
           in Inr [crc_tmp ! 2, crc_tmp ! 3, crc_tmp ! 0, crc_tmp ! 1]))"

definition STX :: byte where "STX = 0x02"
definition ETX :: byte where "ETX = 0x03"

text \<open>
  The frame that \<open>encode_send_request\<close> builds (lines 271 to 281) before it writes it:
  opcode and arguments, the CRC, everything between the two markers, in upper case.
\<close>

definition encode_frame :: "nat \<Rightarrow> string \<Rightarrow> py_error + byte list" where
  "encode_frame opcode data =
     (let msg = fmt_02X opcode @ data in
      case generate_crc msg of
        Inl e \<Rightarrow> Inl e
      | Inr crc \<Rightarrow>
          (let hexed = text_to_hex (str_encode (msg @ crc));
               framed = text_to_hex [STX] @ hexed @ text_to_hex [ETX]
           in case unhexlify framed of
                Inl e \<Rightarrow> Inl e
              | Inr bs \<Rightarrow> Inr (bytes_upper bs)))"

subsection \<open>Constants\<close>

definition CFG_SR :: nat where "CFG_SR = 0x10"
definition CFG_FR :: nat where "CFG_FR = 0x11"
definition CFG_RR :: nat where "CFG_RR = 0x15"
definition RTC_RR :: nat where "RTC_RR = 0x17"
definition MGI_RR :: nat where "MGI_RR = 0x19"
definition MSN_RR :: nat where "MSN_RR = 0x1A"
definition MPN_RR :: nat where "MPN_RR = 0x1B"
definition PLD_ER :: nat where "PLD_ER = 0x25"
definition PLD_DR :: nat where "PLD_DR = 0x26"
definition PLD_FR :: nat where "PLD_FR = 0x27"

definition CFG_SA :: nat where "CFG_SA = 0x90"
definition CFG_FA :: nat where "CFG_FA = 0x91"
definition CFG_RA :: nat where "CFG_RA = 0x95"
definition RTC_RA :: nat where "RTC_RA = 0x97"
definition MGI_RA :: nat where "MGI_RA = 0x99"
definition MSN_RA :: nat where "MSN_RA = 0x9A"
definition MPN_RA :: nat where "MPN_RA = 0x9B"
definition PLD_EA :: nat where "PLD_EA = 0xA5"
definition PLD_DA :: nat where "PLD_DA = 0xA6"
definition PLD_FA :: nat where "PLD_FA = 0xA7"
definition ERR_RA :: nat where "ERR_RA = 0xFF"

definition ASN_MAX_MSG_SIZE :: nat where "ASN_MAX_MSG_SIZE = 160"

definition ANS_STATUS_NONE :: nat where "ANS_STATUS_NONE = 0x0"
definition ANS_STATUS_CRC_NOT_VALID :: nat where "ANS_STATUS_CRC_NOT_VALID = 0x0001"
definition ANS_STATUS_OPCODE_NOT_VALID :: nat where "ANS_STATUS_OPCODE_NOT_VALID = 0x0121"
definition ANS_STATUS_SUCCESS :: nat where "ANS_STATUS_SUCCESS = 0x7000"
definition ANS_STATUS_TIMEOUT :: nat where "ANS_STATUS_TIMEOUT = 0x7001"
definition ANS_STATUS_HW_ERR :: nat where "ANS_STATUS_HW_ERR = 0x7002"
definition ANS_STATUS_DATA_SENT :: nat where "ANS_STATUS_DATA_SENT = 0x7003"
definition ANS_STATUS_DATA_RECEIVED :: nat where "ANS_STATUS_DATA_RECEIVED = 0x7004"
definition ANS_STATUS_PAYLOAD_TOO_LONG :: nat where "ANS_STATUS_PAYLOAD_TOO_LONG = 0x7005"
definition ANS_STATUS_PAYLOAD_ID_CHECK_FAILED :: nat where
  "ANS_STATUS_PAYLOAD_ID_CHECK_FAILED = 0x7006"

definition ASTROCAST_REF_UNIX_TIME :: nat where "ASTROCAST_REF_UNIX_TIME = 1514764800"

subsection \<open>Transport session\<close>

text \<open>
  The serial port as one transaction sees it: \<open>uart_write\<close> is what
  \<open>UART.write(msg)\<close> returns for a message (the number of bytes written, or \<open>None\<close>),
  \<open>uart_rx\<close> the bytes that \<open>any()\<close> and \<open>read(1)\<close> deliver before the deadline of the
  capture loop, in order. A byte that arrives after the deadline is never read by the
  loop, and a poll that finds no byte only sleeps, so the outcome of the loop is a
  function of this sequence.
\<close>

record uart =
  uart_write :: "byte list \<Rightarrow> nat option"
  uart_rx :: "byte list"

text \<open>
  \<open>encode_send_request\<close>: the frame is written; any byte count is \<open>DATA_SENT\<close>, \<open>None\<close>
  is \<open>HW_ERR\<close>.
\<close>

definition encode_send_request :: "uart \<Rightarrow> nat \<Rightarrow> string \<Rightarrow> py_error + nat" where
  "encode_send_request port opcode data =
     (case encode_frame opcode data of
        Inl e \<Rightarrow> Inl e
      | Inr msg \<Rightarrow>
          (case uart_write port msg of
             Some message_len \<Rightarrow> Inr ANS_STATUS_DATA_SENT
           | None \<Rightarrow> Inr ANS_STATUS_HW_ERR))"

text \<open>
  The capture loop of \<open>receive_decode_answer\<close> (lines 297 to 313). The empty list is
  the deadline; each byte read may switch capturing on (\<open>STX\<close>), is appended when
  capturing, and ends the loop when it is \<open>ETX\<close>, whether capturing or not.
\<close>

fun capture :: "bool \<Rightarrow> byte list \<Rightarrow> byte list \<Rightarrow> byte list" where
  "capture do_capture message_buffer [] = message_buffer"
| "capture do_capture message_buffer (b # rest) =
     (let do_capture' = (if b = STX then True else do_capture);
          message_buffer' = (if do_capture' then message_buffer @ [b] else message_buffer)
      in if b = ETX then message_buffer' else capture do_capture' message_buffer' rest)"

declare capture.simps [simp del]

text \<open>
  The decoding half of \<open>receive_decode_answer\<close> (lines 315 to 341), on the captured
  buffer. The slices \<open>[1:-5]\<close> and \<open>[-5:-1]\<close> are written with \<open>take\<close> and \<open>drop\<close>;
  an index into \<open>com_buf_astronode\<close> beyond its length raises \<open>IndexError\<close>.
  The result is \<open>(ret_val, opcode, data)\<close>.
\<close>

definition decode_answer :: "byte list \<Rightarrow> py_error + (nat \<times> nat option \<times> byte list option)" where
  "decode_answer message_buffer =
     (if length message_buffer > 6 then
        (case bytes_decode (drop 1 (take (length message_buffer - 5) message_buffer)) of
           Inl e \<Rightarrow> Inl e
         | Inr message \<Rightarrow>
        (case bytes_decode
                (drop (length message_buffer - 5)
                   (take (length message_buffer - 1) message_buffer)) of
           Inl e \<Rightarrow> Inl e
         | Inr cmd_crc_check \<Rightarrow>
        (case unhexlify message of
           Inl e \<Rightarrow> Inl e
         | Inr com_buf_astronode \<Rightarrow>
        (case generate_crc message of
           Inl e \<Rightarrow> Inl e
         | Inr cmd_crc \<Rightarrow>
             if cmd_crc = cmd_crc_check then
               (case com_buf_astronode of
                  [] \<Rightarrow> Inl IndexError
                | c0 # payload \<Rightarrow>
                    if unat c0 = ERR_RA then
                      (if length com_buf_astronode > 2 then
                         Inr (push_bit 8 (unat (com_buf_astronode ! 2))
                                + unat (com_buf_astronode ! 1), None, None)
                       else Inl IndexError)
                    else Inr (ANS_STATUS_DATA_RECEIVED, Some (unat c0), Some payload))
             else Inr (ANS_STATUS_CRC_NOT_VALID, None, None)))))
      else Inr (ANS_STATUS_TIMEOUT, None, None))"

definition receive_decode_answer ::
  "uart \<Rightarrow> py_error + (nat \<times> nat option \<times> byte list option)" where
  "receive_decode_answer port = decode_answer (capture False [] (uart_rx port))"

subsection \<open>Command catalog\<close>

text \<open>
  Python values of more than one type: the payload identifier is \<open>None\<close>, a text or a
  number, and \<open>==\<close> between values of different types is false.
\<close>

datatype pyval = PyNone | PyStr string | PyInt int

text \<open>
  \<open>generate_message\<close>. The identifier drawn when the caller gives none,
  \<open>'{:04s}'.format(hex(random.randint(0, 65535))[2:6])\<close>, depends on the random
  generator and on the runtime's handling of the \<open>0\<close> flag for a text, so its outcome
  \<open>fresh\<close> (a text, or the exception) is an input. \<open>m += ...\<close> on a number raises
  \<open>TypeError\<close>.
\<close>

definition generate_message ::
  "py_error + string \<Rightarrow> byte list \<Rightarrow> bool \<Rightarrow> pyval \<Rightarrow> py_error + (pyval \<times> string)" where
  "generate_message fresh payload include_message_id ident =
     (if include_message_id then
        (case (if ident \<noteq> PyNone then Inr ident else map_sum (\<lambda>e. e) PyStr fresh) of
           Inl e \<Rightarrow> Inl e
         | Inr ident' \<Rightarrow>
             (case ident' of
                PyStr m \<Rightarrow> Inr (ident', m @ text_to_hex payload)
              | _ \<Rightarrow> Inl TypeError))
      else Inr (ident, text_to_hex payload))"

record ASTRONODE_CONFIG =
  product_id :: nat
  hardware_rev :: nat
  firmware_maj_ver :: nat
  firmware_min_ver :: nat
  firmware_rev :: nat
  with_pl_ack :: nat
  with_geoloc :: nat
  with_ephemeris :: nat
  with_deep_sleep_en :: nat
  with_msg_ack_pin_en :: nat
  with_msg_reset_pin_en :: nat

definition configuration_read :: "uart \<Rightarrow> py_error + (nat \<times> ASTRONODE_CONFIG option)" where
  "configuration_read port =
     (case encode_send_request port CFG_RR [] of
        Inl e \<Rightarrow> Inl e
      | Inr ret_val \<Rightarrow>
          if ret_val = ANS_STATUS_DATA_SENT then
            (case receive_decode_answer port of
               Inl e \<Rightarrow> Inl e
             | Inr (ret_val, opcode, data) \<Rightarrow>
                 if ret_val = ANS_STATUS_DATA_RECEIVED \<and> opcode = Some CFG_RA then
                   (case data of
                      None \<Rightarrow> Inl TypeError
                    | Some d \<Rightarrow>
                        if length d < 8 then Inl IndexError
                        else Inr (ANS_STATUS_SUCCESS,
                          Some \<lparr>product_id = unat (d ! 0),
                                hardware_rev = unat (d ! 1),
                                firmware_maj_ver = unat (d ! 2),
                                firmware_min_ver = unat (d ! 3),
                                firmware_rev = unat (d ! 4),
                                with_pl_ack = unat (d ! 5) AND push_bit 0 1,
                                with_geoloc = unat (d ! 5) AND push_bit 1 1,
                                with_ephemeris = unat (d ! 5) AND push_bit 2 1,
                                with_deep_sleep_en = unat (d ! 5) AND push_bit 3 1,
                                with_msg_ack_pin_en = unat (d ! 7) AND push_bit 0 1,
                                with_msg_reset_pin_en = unat (d ! 7) AND push_bit 1 1\<rparr>))
                 else Inr (ret_val, None))
          else Inr (ret_val, None))"

definition configuration_save :: "uart \<Rightarrow> py_error + nat" where
  "configuration_save port =
     (case encode_send_request port CFG_SR [] of
        Inl e \<Rightarrow> Inl e
      | Inr ret_val \<Rightarrow>
          if ret_val = ANS_STATUS_DATA_SENT then
            (case receive_decode_answer port of
               Inl e \<Rightarrow> Inl e
             | Inr (ret_val, opcode, data) \<Rightarrow>
                 if ret_val = ANS_STATUS_DATA_RECEIVED \<and> opcode = Some CFG_SA
                 then Inr ANS_STATUS_SUCCESS
                 else Inr ret_val)
          else Inr ret_val)"

text \<open>
  \<open>factory_reset\<close> tests \<open>reg == CFG_FA\<close>, the request opcode against the answer
  constant, where its siblings test the decoded opcode.
\<close>

definition factory_reset :: "uart \<Rightarrow> py_error + nat" where
  "factory_reset port =
     (let reg = CFG_FR in
      case encode_send_request port reg [] of
        Inl e \<Rightarrow> Inl e
      | Inr ret_val \<Rightarrow>
          if ret_val = ANS_STATUS_DATA_SENT then
            (case receive_decode_answer port of
               Inl e \<Rightarrow> Inl e
             | Inr (ret_val, opcode, data) \<Rightarrow>
                 if ret_val = ANS_STATUS_DATA_RECEIVED \<and> reg = CFG_FA
                 then Inr ANS_STATUS_SUCCESS
                 else Inr ret_val)
          else Inr ret_val)"

text \<open>
  The last line of \<open>guid_read\<close>, \<open>serial_number_read\<close> and \<open>product_number_read\<close>,
  \<open>return (ret_val, x.decode())\<close>: \<open>None\<close> has no \<open>decode\<close>, so \<open>AttributeError\<close>.
\<close>

definition return_decoded :: "nat \<Rightarrow> byte list option \<Rightarrow> py_error + (nat \<times> string)" where
  "return_decoded ret_val x =
     (case x of
        None \<Rightarrow> Inl AttributeError
      | Some bs \<Rightarrow> (case bytes_decode bs of Inl e \<Rightarrow> Inl e | Inr s \<Rightarrow> Inr (ret_val, s)))"

definition guid_read :: "uart \<Rightarrow> py_error + (nat \<times> string)" where
  "guid_read port =
     (case encode_send_request port MGI_RR [] of
        Inl e \<Rightarrow> Inl e
      | Inr ret_val \<Rightarrow>
          if ret_val = ANS_STATUS_DATA_SENT then
            (case receive_decode_answer port of
               Inl e \<Rightarrow> Inl e
             | Inr (ret_val, opcode, data) \<Rightarrow>
                 if ret_val = ANS_STATUS_DATA_RECEIVED \<and> opcode = Some MGI_RA
                 then return_decoded ANS_STATUS_SUCCESS data
                 else return_decoded ret_val None)
          else return_decoded ret_val None)"

definition serial_number_read :: "uart \<Rightarrow> py_error + (nat \<times> string)" where
  "serial_number_read port =
     (case encode_send_request port MSN_RR [] of
        Inl e \<Rightarrow> Inl e
      | Inr ret_val \<Rightarrow>
          if ret_val = ANS_STATUS_DATA_SENT then
            (case receive_decode_answer port of
               Inl e \<Rightarrow> Inl e
             | Inr (ret_val, opcode, data) \<Rightarrow>
                 if ret_val = ANS_STATUS_DATA_RECEIVED \<and> opcode = Some MSN_RA
                 then return_decoded ANS_STATUS_SUCCESS data
                 else return_decoded ret_val None)
          else return_decoded ret_val None)"

definition product_number_read :: "uart \<Rightarrow> py_error + (nat \<times> string)" where
  "product_number_read port =
     (case encode_send_request port MPN_RR [] of
        Inl e \<Rightarrow> Inl e
      | Inr ret_val \<Rightarrow>
          if ret_val = ANS_STATUS_DATA_SENT then
            (case receive_decode_answer port of
               Inl e \<Rightarrow> Inl e
             | Inr (ret_val, opcode, data) \<Rightarrow>
                 if ret_val = ANS_STATUS_DATA_RECEIVED \<and> opcode = Some MPN_RA
                 then return_decoded ANS_STATUS_SUCCESS data
                 else return_decoded ret_val None)
          else return_decoded ret_val None)"

definition rtc_read :: "uart \<Rightarrow> py_error + (nat \<times> nat option)" where
  "rtc_read port =
     (case encode_send_request port RTC_RR [] of
        Inl e \<Rightarrow> Inl e
      | Inr ret_val \<Rightarrow>
          if ret_val = ANS_STATUS_DATA_SENT then
            (case receive_decode_answer port of
               Inl e \<Rightarrow> Inl e
             | Inr (ret_val, opcode, data) \<Rightarrow>
                 if ret_val = ANS_STATUS_DATA_RECEIVED \<and> opcode = Some RTC_RA then
                   (case data of
                      None \<Rightarrow> Inl TypeError
                    | Some d \<Rightarrow>
                        if length d < 4 then Inl IndexError
                        else
                          (let time_tmp = push_bit 24 (unat (d ! 3)) + push_bit 16 (unat (d ! 2))
                                          + push_bit 8 (unat (d ! 1)) + push_bit 0 (unat (d ! 0))
                           in Inr (ANS_STATUS_SUCCESS, Some (time_tmp + ASTROCAST_REF_UNIX_TIME))))
                 else Inr (ret_val, None))
          else Inr (ret_val, None))"

definition enqueue_payload ::
  "uart \<Rightarrow> py_error + string \<Rightarrow> byte list \<Rightarrow> pyval \<Rightarrow> py_error + (nat \<times> pyval)" where
  "enqueue_payload port fresh data ident =
     (if length data \<le> ASN_MAX_MSG_SIZE then
        (case generate_message fresh data True ident of
           Inl e \<Rightarrow> Inl e
         | Inr (message_id, message) \<Rightarrow>
             (case encode_send_request port PLD_ER message of
                Inl e \<Rightarrow> Inl e
              | Inr ret_val \<Rightarrow>
                  if ret_val = ANS_STATUS_DATA_SENT then
                    (case receive_decode_answer port of
                       Inl e \<Rightarrow> Inl e
                     | Inr (ret_val, opcode, data) \<Rightarrow>
                         if ret_val = ANS_STATUS_DATA_RECEIVED \<and> opcode = Some PLD_EA then
                           (case data of
                              None \<Rightarrow> Inl TypeError
                            | Some d \<Rightarrow>
                                if length d < 2 then Inl IndexError
                                else
                                  (let id_check = PyInt (int (push_bit 8 (unat (d ! 1)) + unat (d ! 0)))
                                   in if message_id = id_check
                                      then Inr (ANS_STATUS_SUCCESS, message_id)
                                      else Inr (ANS_STATUS_PAYLOAD_ID_CHECK_FAILED, message_id)))
                         else Inr (ret_val, message_id))
                  else Inr (ret_val, message_id)))
      else Inr (ANS_STATUS_PAYLOAD_TOO_LONG, ident))"

definition dequeue_payload :: "uart \<Rightarrow> py_error + (nat \<times> nat option)" where
  "dequeue_payload port =
     (case encode_send_request port PLD_DR [] of
        Inl e \<Rightarrow> Inl e
      | Inr ret_val \<Rightarrow>
          if ret_val = ANS_STATUS_DATA_SENT then
            (case receive_decode_answer port of
               Inl e \<Rightarrow> Inl e
             | Inr (ret_val, opcode, data) \<Rightarrow>
                 if ret_val = ANS_STATUS_DATA_RECEIVED \<and> opcode = Some PLD_DA then
                   (case data of
                      None \<Rightarrow> Inl TypeError
                    | Some d \<Rightarrow>
                        if length d < 2 then Inl IndexError
                        else Inr (ANS_STATUS_SUCCESS,
                                  Some (push_bit 8 (unat (d ! 1)) + unat (d ! 0))))
                 else Inr (ret_val, None))
          else Inr (ret_val, None))"

definition clear_free_payloads :: "uart \<Rightarrow> py_error + nat" where
  "clear_free_payloads port =
     (case encode_send_request port PLD_FR [] of
        Inl e \<Rightarrow> Inl e
      | Inr ret_val \<Rightarrow>
          if ret_val = ANS_STATUS_DATA_SENT then
            (case receive_decode_answer port of
               Inl e \<Rightarrow> Inl e
             | Inr (ret_val, opcode, data) \<Rightarrow>
                 if ret_val = ANS_STATUS_DATA_RECEIVED \<and> opcode = Some PLD_FA
                 then Inr ANS_STATUS_SUCCESS
                 else Inr ret_val)
          else Inr ret_val)"

section \<open>Evaluation rules and helper lemmas\<close>

lemmas status_defs =
  ANS_STATUS_NONE_def ANS_STATUS_CRC_NOT_VALID_def ANS_STATUS_OPCODE_NOT_VALID_def
  ANS_STATUS_SUCCESS_def ANS_STATUS_TIMEOUT_def ANS_STATUS_HW_ERR_def
  ANS_STATUS_DATA_SENT_def ANS_STATUS_DATA_RECEIVED_def ANS_STATUS_PAYLOAD_TOO_LONG_def
  ANS_STATUS_PAYLOAD_ID_CHECK_FAILED_def

lemmas opcode_defs =
  CFG_SR_def CFG_FR_def CFG_RR_def RTC_RR_def MGI_RR_def MSN_RR_def MPN_RR_def
  PLD_ER_def PLD_DR_def PLD_FR_def CFG_SA_def CFG_FA_def CFG_RA_def RTC_RA_def
  MGI_RA_def MSN_RA_def MPN_RA_def PLD_EA_def PLD_DA_def PLD_FA_def ERR_RA_def

subsection \<open>Checksum engine\<close>

lemma crc16_step_bound: "crc16_step crc b < 65536"
proof -
  have "crc16_step crc b = take_bit 16 (push_bit 8 crc XOR crc_table ! (drop_bit 8 crc XOR unat b))"
    by (simp add: crc16_step_def take_bit_eq_mask mask_eq_exp_minus_1)
  also have "\<dots> < 2 ^ 16" by (rule take_bit_nat_less_exp)
  finally show ?thesis by simp
qed

lemma foldl_crc16_step_bound: "acc < 65536 \<Longrightarrow> foldl crc16_step acc data < 65536"
  by (induction data arbitrary: acc) (simp_all add: crc16_step_bound)

lemma crc16_bound: "crc16 data < 65536"
  by (simp add: crc16_def foldl_crc16_step_bound)

lemma xor_nat_less_256:
  fixes x y :: nat
  assumes "x < 256" "y < 256"
  shows "x XOR y < 256"
proof -
  have "take_bit 8 x = x" "take_bit 8 y = y"
    using assms by (simp_all add: take_bit_nat_eq_self_iff)
  then have "x XOR y = take_bit 8 (x XOR y)"
    by (simp add: take_bit_xor)
  also have "\<dots> < 2 ^ 8" by (rule take_bit_nat_less_exp)
  finally show ?thesis by simp
qed

lemma crc16_index_in_table: "drop_bit 8 (crc16 data) XOR unat (b::byte) < length crc_table"
proof -
  have "drop_bit 8 (crc16 data) < 256"
    using crc16_bound [of data] by (simp add: drop_bit_eq_div)
  moreover have "unat b < 256" using unsigned_less [of b, where ?'a = nat] by simp
  ultimately have "drop_bit 8 (crc16 data) XOR unat b < 256" by (rule xor_nat_less_256)
  moreover have "length crc_table = 256" by (simp add: crc_table_def)
  ultimately show ?thesis by simp
qed

lemma crc16_snoc: "crc16 (data @ [b]) = crc16_step (crc16 data) b"
  by (simp add: crc16_def)

lemma crc16_check_vector: "crc16 (str_encode ''123456789'') = 0x29B1"
  by (simp add: crc16_def crc16_step_def crc_table_def str_encode_def)

subsection \<open>Evaluation of the codec on concrete frames\<close>

lemmas codec_eval =
  encode_frame_def fmt_02X_def fmt_04X_def hex_str.simps zero_pad_def hex_char_def
  generate_crc_def crc16_def crc16_step_def crc_table_def text_to_hex_def str_encode_def
  STX_def ETX_def xdigit_value_def bytes_upper_def byte_upper_def bytes_decode_def
  char_of_byte_def char_of_def bit_Suc_0_iff decode_answer_def

subsection \<open>Frames of the requests without arguments\<close>

lemma frame_CFG_SR: "encode_frame CFG_SR [] = Inr (STX # str_encode ''10C1F3'' @ [ETX])"
  by (simp add: codec_eval opcode_defs)

lemma frame_CFG_FR: "encode_frame CFG_FR [] = Inr (STX # str_encode ''11E0E3'' @ [ETX])"
  by (simp add: codec_eval opcode_defs)

lemma frame_CFG_RR: "encode_frame CFG_RR [] = Inr (STX # str_encode ''1564A3'' @ [ETX])"
  by (simp add: codec_eval opcode_defs)

lemma frame_RTC_RR: "encode_frame RTC_RR [] = Inr (STX # str_encode ''172683'' @ [ETX])"
  by (simp add: codec_eval opcode_defs)

lemma frame_MGI_RR: "encode_frame MGI_RR [] = Inr (STX # str_encode ''19E862'' @ [ETX])"
  by (simp add: codec_eval opcode_defs)

lemma frame_MSN_RR: "encode_frame MSN_RR [] = Inr (STX # str_encode ''1A8B52'' @ [ETX])"
  by (simp add: codec_eval opcode_defs)

lemma frame_MPN_RR: "encode_frame MPN_RR [] = Inr (STX # str_encode ''1BAA42'' @ [ETX])"
  by (simp add: codec_eval opcode_defs)

lemma frame_PLD_DR: "encode_frame PLD_DR [] = Inr (STX # str_encode ''2654A5'' @ [ETX])"
  by (simp add: codec_eval opcode_defs)

lemma frame_PLD_FR: "encode_frame PLD_FR [] = Inr (STX # str_encode ''2775B5'' @ [ETX])"
  by (simp add: codec_eval opcode_defs)

lemma frame_PLD_ER_123441:
  "encode_frame PLD_ER ''123441'' = Inr (STX # str_encode ''251234417CB3'' @ [ETX])"
  by (simp add: codec_eval opcode_defs)

lemmas request_frames =
  frame_CFG_SR frame_CFG_FR frame_CFG_RR frame_RTC_RR frame_MGI_RR frame_MSN_RR
  frame_MPN_RR frame_PLD_DR frame_PLD_FR

subsection \<open>Answers used as concrete inputs\<close>

lemma capture_until_etx:
  "ETX \<notin> set body \<Longrightarrow> capture True buf (body @ ETX # rest) = buf @ body @ [ETX]"
  by (induction body arbitrary: buf) (auto simp: capture.simps Let_def)

lemma capture_framed:
  "ETX \<notin> set body \<Longrightarrow> capture False [] (STX # body @ ETX # rest) = STX # body @ [ETX]"
  using capture_until_etx [of body "[STX]" rest]
  by (simp add: capture.simps Let_def STX_def ETX_def)

lemma capture_frame_eval:
  "capture False [] (STX # str_encode ''97000000005250'' @ [ETX])
     = STX # str_encode ''97000000005250'' @ [ETX]"
  "capture False [] (STX # str_encode ''FF0070687D'' @ [ETX])
     = STX # str_encode ''FF0070687D'' @ [ETX]"
  "capture False [] (STX # str_encode ''916872'' @ [ETX]) = STX # str_encode ''916872'' @ [ETX]"
  "capture False [] (STX # str_encode ''95EC32'' @ [ETX]) = STX # str_encode ''95EC32'' @ [ETX]"
  "capture False [] (STX # str_encode ''A512343689'' @ [ETX])
     = STX # str_encode ''A512343689'' @ [ETX]"
  "capture False [] (STX # str_encode ''FFFF'' @ [ETX]) = STX # str_encode ''FFFF'' @ [ETX]"
  "capture False [] (STX # str_encode ''904962'' @ [ETX]) = STX # str_encode ''904962'' @ [ETX]"
  "capture False [] (STX # str_encode ''9503010203040F0003D740'' @ [ETX])
     = STX # str_encode ''9503010203040F0003D740'' @ [ETX]"
  by (rule capture_framed, simp add: str_encode_def ETX_def)+

lemma decode_rtc_zero:
  "decode_answer (STX # str_encode ''97000000005250'' @ [ETX])
     = Inr (ANS_STATUS_DATA_RECEIVED, Some RTC_RA, Some [0, 0, 0, 0])"
  by (simp add: codec_eval opcode_defs)

lemma decode_err_7000:
  "decode_answer (STX # str_encode ''FF0070687D'' @ [ETX]) = Inr (ANS_STATUS_SUCCESS, None, None)"
  by (simp add: codec_eval opcode_defs status_defs)

lemma decode_cfg_fa:
  "decode_answer (STX # str_encode ''916872'' @ [ETX])
     = Inr (ANS_STATUS_DATA_RECEIVED, Some CFG_FA, Some [])"
  by (simp add: codec_eval opcode_defs)

lemma decode_cfg_ra_empty:
  "decode_answer (STX # str_encode ''95EC32'' @ [ETX])
     = Inr (ANS_STATUS_DATA_RECEIVED, Some CFG_RA, Some [])"
  by (simp add: codec_eval opcode_defs)

lemma decode_cfg_sa:
  "decode_answer (STX # str_encode ''904962'' @ [ETX])
     = Inr (ANS_STATUS_DATA_RECEIVED, Some CFG_SA, Some [])"
  by (simp add: codec_eval opcode_defs)

lemma decode_cfg_ra_full:
  "decode_answer (STX # str_encode ''9503010203040F0003D740'' @ [ETX])
     = Inr (ANS_STATUS_DATA_RECEIVED, Some CFG_RA,
            Some [0x03, 0x01, 0x02, 0x03, 0x04, 0x0F, 0x00, 0x03])"
  by (simp add: codec_eval opcode_defs)

lemma decode_pld_ea_1234:
  "decode_answer (STX # str_encode ''A512343689'' @ [ETX])
     = Inr (ANS_STATUS_DATA_RECEIVED, Some PLD_EA, Some [0x12, 0x34])"
  by (simp add: codec_eval opcode_defs)

lemma decode_six_bytes:
  "decode_answer (STX # str_encode ''FFFF'' @ [ETX]) = Inr (ANS_STATUS_TIMEOUT, None, None)"
  by (simp add: decode_answer_def str_encode_def)

lemmas answer_eval =
  receive_decode_answer_def capture_frame_eval decode_rtc_zero decode_err_7000 decode_cfg_fa
  decode_cfg_ra_empty decode_pld_ea_1234 decode_six_bytes decode_cfg_sa decode_cfg_ra_full


subsection \<open>Shape of the results\<close>

lemma encode_send_request_status:
  "encode_send_request port opcode data = Inr r \<Longrightarrow>
     r = ANS_STATUS_DATA_SENT \<or> r = ANS_STATUS_HW_ERR"
  by (auto simp: encode_send_request_def split: sum.splits option.splits)

lemma encode_send_request_written:
  "encode_frame opcode data = Inr msg \<Longrightarrow>
     encode_send_request port opcode data =
       Inr (if uart_write port msg = None then ANS_STATUS_HW_ERR else ANS_STATUS_DATA_SENT)"
  by (auto simp: encode_send_request_def split: option.splits)

lemma decode_answer_shape:
  "decode_answer buf = Inr (rv, opc, d) \<Longrightarrow>
     (opc = None \<and> d = None) \<or> (rv = ANS_STATUS_DATA_RECEIVED \<and> opc \<noteq> None \<and> d \<noteq> None)"
  by (auto simp: decode_answer_def split: if_splits sum.splits list.splits)

lemma frame_ERR_RA_0102:
  "encode_frame 0xFF ''0102'' = Inr (STX # str_encode ''FF01028C10'' @ [ETX])"
  by (simp add: codec_eval)

lemma frame_PLD_ER_12ab41:
  "encode_frame PLD_ER ''12ab41'' = Inr (STX # str_encode ''2512AB41A9BB'' @ [ETX])"
  by (simp add: codec_eval opcode_defs)

lemma decode_err_0102:
  "decode_answer (STX # str_encode ''FF01028C10'' @ [ETX]) = Inr (0x0201, None, None)"
  by (simp add: codec_eval opcode_defs)

lemma capture_err_0102:
  "capture False [] (STX # str_encode ''FF01028C10'' @ [ETX])
     = STX # str_encode ''FF01028C10'' @ [ETX]"
  by (rule capture_framed, simp add: str_encode_def ETX_def)

lemma unhexlify_eval:
  "unhexlify ''0102'' = Inr [0x01, 0x02]"
  "unhexlify ''12ab41'' = Inr [0x12, 0xAB, 0x41]"
  by (simp_all add: xdigit_value_def)

subsection \<open>Hexadecimal text\<close>

lemma nat_less_16_cases:
  "d < (16::nat) \<Longrightarrow> d = 0 \<or> d = 1 \<or> d = 2 \<or> d = 3 \<or> d = 4 \<or> d = 5 \<or> d = 6 \<or> d = 7
    \<or> d = 8 \<or> d = 9 \<or> d = 10 \<or> d = 11 \<or> d = 12 \<or> d = 13 \<or> d = 14 \<or> d = 15"
  by arith

lemma xdigit_value_hex_char: "d < 16 \<Longrightarrow> xdigit_value (hex_char up d) = Some d"
  by (drule nat_less_16_cases, elim disjE) (simp_all add: hex_char_def xdigit_value_def)

lemma fmt_02X_byte:
  assumes "n < 256"
  shows "fmt_02X n = [hex_char True (n div 16), hex_char True (n mod 16)]"
proof (cases "n < 16")
  case True
  then show ?thesis
    by (simp add: fmt_02X_def hex_str.simps [of True n] zero_pad_def hex_char_def)
next
  case False
  moreover from assms have "n div 16 < 16" by simp
  ultimately show ?thesis
    by (simp add: fmt_02X_def hex_str.simps [of True n] hex_str.simps [of True "n div 16"]
        zero_pad_def)
qed

lemma word_of_nat_nibbles: "word_of_nat (unat b div 16 * 16 + unat b mod 16) = (b :: byte)"
  by simp

lemma unhexlify_text_to_hex_append:
  "unhexlify (text_to_hex xs @ rest)
     = (case unhexlify rest of Inl e \<Rightarrow> Inl e | Inr bs \<Rightarrow> Inr (xs @ bs))"
proof (induction xs)
  case Nil
  then show ?case by (simp add: text_to_hex_def split: sum.splits)
next
  case (Cons b xs)
  have hi: "unat b div 16 < 16"
    using unsigned_less [of b, where ?'a = nat] by simp
  have lo: "unat b mod 16 < 16" by simp
  have "text_to_hex (b # xs) @ rest
      = hex_char False (unat b div 16) # hex_char False (unat b mod 16) # (text_to_hex xs @ rest)"
    by (simp add: text_to_hex_def)
  then show ?case
    using Cons.IH xdigit_value_hex_char [OF hi, of False] xdigit_value_hex_char [OF lo, of False]
    by (simp split: sum.splits)
qed

subsection \<open>Characters of a hexadecimal text\<close>

lemma char_of_byte_of_char: "char_of_byte (of_char c) = c"
proof -
  have "(of_char c :: byte) = word_of_nat (of_char c)"
    by (simp add: of_nat_of_char)
  then have "unat (of_char c :: byte) = take_bit 8 (of_char c :: nat)"
    by (simp add: unsigned_of_nat)
  then show ?thesis
    by (simp add: char_of_byte_def char_of_take_bit_eq)
qed

lemma xdigit_value_cases:
  assumes "xdigit_value c = Some v"
  shows "c \<in> set ''0123456789ABCDEFabcdef''"
proof -
  define n :: nat where "n = of_char c"
  have c: "c = char_of n" by (simp add: n_def)
  have "(48 \<le> n \<and> n \<le> 57) \<or> (65 \<le> n \<and> n \<le> 70) \<or> (97 \<le> n \<and> n \<le> 102)"
    using assms by (auto simp: xdigit_value_def Let_def n_def split: if_splits)
  then have "n = 48 \<or> n = 49 \<or> n = 50 \<or> n = 51 \<or> n = 52 \<or> n = 53 \<or> n = 54 \<or> n = 55
      \<or> n = 56 \<or> n = 57 \<or> n = 65 \<or> n = 66 \<or> n = 67 \<or> n = 68 \<or> n = 69 \<or> n = 70
      \<or> n = 97 \<or> n = 98 \<or> n = 99 \<or> n = 100 \<or> n = 101 \<or> n = 102"
    by arith
  then show ?thesis
    unfolding c by (elim disjE) (simp_all add: char_of_def bit_Suc_0_iff)
qed

lemma hex_digit_upper_byte:
  assumes "c \<in> set ''0123456789ABCDEFabcdef''"
  shows "byte_upper (of_char c) \<noteq> ETX"
    and "byte_upper (of_char c) < 0x80"
    and "xdigit_value (char_of_byte (byte_upper (of_char c))) = xdigit_value c"
proof -
  from assms have d: "c = CHR ''0'' \<or> c = CHR ''1'' \<or> c = CHR ''2'' \<or> c = CHR ''3''
    \<or> c = CHR ''4'' \<or> c = CHR ''5'' \<or> c = CHR ''6'' \<or> c = CHR ''7'' \<or> c = CHR ''8''
    \<or> c = CHR ''9'' \<or> c = CHR ''A'' \<or> c = CHR ''B'' \<or> c = CHR ''C'' \<or> c = CHR ''D''
    \<or> c = CHR ''E'' \<or> c = CHR ''F'' \<or> c = CHR ''a'' \<or> c = CHR ''b'' \<or> c = CHR ''c''
    \<or> c = CHR ''d'' \<or> c = CHR ''e'' \<or> c = CHR ''f''"
    by simp
  from d show "byte_upper (of_char c) \<noteq> ETX"
    by (elim disjE) (simp_all add: byte_upper_def ETX_def)
  from d show "byte_upper (of_char c) < 0x80"
    by (elim disjE) (simp_all add: byte_upper_def)
  from d show "xdigit_value (char_of_byte (byte_upper (of_char c))) = xdigit_value c"
    by (elim disjE)
      (simp_all add: byte_upper_def char_of_byte_def xdigit_value_def char_of_def bit_Suc_0_iff)
qed

lemma upper_hex_byte:
  assumes "c \<in> set ''0123456789ABCDEF''"
  shows "byte_upper (of_char c) = of_char c" and "xdigit_value c \<noteq> None"
  using assms by (auto simp: byte_upper_def xdigit_value_def)

lemma hex_char_upper_set: "d < 16 \<Longrightarrow> hex_char True d \<in> set ''0123456789ABCDEF''"
  by (drule nat_less_16_cases, elim disjE) (simp_all add: hex_char_def)

lemma hex_str_upper_set: "set (hex_str True n) \<subseteq> set ''0123456789ABCDEF''"
proof (induction n rule: less_induct)
  case (less n)
  show ?case
  proof (cases "n < 16")
    case True
    then show ?thesis
      using hex_char_upper_set [of n] by (simp add: hex_str.simps [of True n])
  next
    case False
    then have "n div 16 < n" by simp
    from less.IH [OF this] False show ?thesis
      using hex_char_upper_set [of "n mod 16"] by (simp add: hex_str.simps [of True n])
  qed
qed

lemma fmt_04X_chars:
  "4 \<le> length (fmt_04X n)" "set (fmt_04X n) \<subseteq> set ''0123456789ABCDEF''"
  using hex_str_upper_set [of n] by (auto simp: fmt_04X_def zero_pad_def)

lemma generate_crc_chars:
  assumes "generate_crc data = Inr crc"
  shows "length crc = 4" and "set crc \<subseteq> set ''0123456789ABCDEF''"
proof -
  obtain bs where crc: "crc = [fmt_04X (crc16 bs) ! 2, fmt_04X (crc16 bs) ! 3,
      fmt_04X (crc16 bs) ! 0, fmt_04X (crc16 bs) ! 1]"
    using assms by (auto simp: generate_crc_def Let_def split: sum.splits)
  show "length crc = 4" by (simp add: crc)
  have "\<And>i. i < 4 \<Longrightarrow> fmt_04X (crc16 bs) ! i \<in> set ''0123456789ABCDEF''"
    using fmt_04X_chars [of "crc16 bs"] nth_mem [of _ "fmt_04X (crc16 bs)"]
    by (meson less_le_trans subsetD)
  from this [of 0] this [of 1] this [of 2] this [of 3]
  show "set crc \<subseteq> set ''0123456789ABCDEF''"
    unfolding crc by simp
qed


lemma utf8_check_ascii: "\<forall>b \<in> set bs. b < 0x80 \<Longrightarrow> utf8_check 0 bs"
  by (induction bs) (auto simp: word_less_nat_alt word_le_nat_alt)

lemma unhexlify_chars:
  "unhexlify s = Inr bs \<Longrightarrow> set s \<subseteq> set ''0123456789ABCDEFabcdef''"
proof (induction s arbitrary: bs rule: unhexlify.induct)
  case 1
  then show ?case by simp
next
  case (2 c)
  then show ?case by simp
next
  case (3 c d cs)
  from "3.prems" obtain h l bs' where
    h: "xdigit_value c = Some h" and l: "xdigit_value d = Some l"
    and r: "unhexlify cs = Inr bs'"
    by (auto split: option.splits sum.splits)
  from "3.IH" [OF _ h l r] xdigit_value_cases [OF h] xdigit_value_cases [OF l]
  show ?case by simp
qed

lemma unhexlify_upper:
  "unhexlify s = Inr bs \<Longrightarrow>
     unhexlify (map (\<lambda>c. char_of_byte (byte_upper (of_char c))) s) = Inr bs"
proof (induction s arbitrary: bs rule: unhexlify.induct)
  case 1
  then show ?case by simp
next
  case (2 c)
  then show ?case by simp
next
  case (3 c d cs)
  from "3.prems" obtain h l bs' where
    h: "xdigit_value c = Some h" and l: "xdigit_value d = Some l"
    and r: "unhexlify cs = Inr bs'" and bs: "bs = word_of_nat (h * 16 + l) # bs'"
    by (auto split: option.splits sum.splits)
  from "3.IH" [OF _ h l r] h l bs
    hex_digit_upper_byte(3) [OF xdigit_value_cases [OF h]]
    hex_digit_upper_byte(3) [OF xdigit_value_cases [OF l]]
  show ?case by simp
qed

subsection \<open>Encoding followed by decoding\<close>

lemma unhexlify_request:
  assumes "opcode < 256" and "unhexlify args = Inr bs"
  shows "unhexlify (fmt_02X opcode @ args) = Inr (word_of_nat opcode # bs)"
proof -
  have "opcode div 16 < 16" "opcode mod 16 < 16" using assms(1) by simp_all
  from xdigit_value_hex_char [OF this(1), of True] xdigit_value_hex_char [OF this(2), of True]
  show ?thesis
    using assms by (simp add: fmt_02X_byte)
qed

lemma slice_message:
  "length C = 4 \<Longrightarrow>
     drop 1 (take (length (s # M @ C @ [e]) - 5) (s # M @ C @ [e])) = M"
  by simp

lemma slice_crc:
  assumes "length C = 4"
  shows "drop (length (s # M @ C @ [e]) - 5)
           (take (length (s # M @ C @ [e]) - 1) (s # M @ C @ [e])) = C"
proof -
  have "take (length (s # M @ C @ [e]) - 1) (s # M @ C @ [e]) = butlast (s # (M @ C) @ [e])"
    by (simp add: butlast_conv_take)
  also have "\<dots> = s # M @ C"
    by (simp only: butlast_snoc append_Cons [symmetric])
  finally have t: "take (length (s # M @ C @ [e]) - 1) (s # M @ C @ [e]) = s # M @ C" .
  have "length (s # M @ C @ [e]) - 5 = Suc (length M)"
    using assms by simp
  then show ?thesis
    by (simp only: t) simp
qed

lemma upper_hex_subset: "set ''0123456789ABCDEF'' \<subseteq> set ''0123456789ABCDEFabcdef''"
  by simp

lemma bytes_upper_crc:
  assumes "set crc \<subseteq> set ''0123456789ABCDEF''"
  shows "bytes_upper (str_encode crc) = str_encode crc"
  using assms upper_hex_byte(1)
  by (auto simp: bytes_upper_def str_encode_def)

lemma hex_bytes_upper:
  assumes "set s \<subseteq> set ''0123456789ABCDEFabcdef''"
    and "b \<in> set (bytes_upper (str_encode s))"
  shows "b \<noteq> ETX" and "b < 0x80"
proof -
  from assms(2) obtain c where c: "c \<in> set s" and b: "b = byte_upper (of_char c)"
    by (auto simp: bytes_upper_def str_encode_def)
  from assms(1) c have h: "c \<in> set ''0123456789ABCDEFabcdef''" by (rule subsetD)
  show "b \<noteq> ETX" unfolding b by (rule hex_digit_upper_byte(1) [OF h])
  show "b < 0x80" unfolding b by (rule hex_digit_upper_byte(2) [OF h])
qed

lemma bytes_decode_hex_upper:
  assumes "set s \<subseteq> set ''0123456789ABCDEFabcdef''"
  shows "bytes_decode (bytes_upper (str_encode s))
           = Inr (map (\<lambda>c. char_of_byte (byte_upper (of_char c))) s)"
proof -
  have "\<forall>b \<in> set (bytes_upper (str_encode s)). b < 0x80"
    using hex_bytes_upper(2) [OF assms] by blast
  then have "utf8_check 0 (bytes_upper (str_encode s))" by (rule utf8_check_ascii)
  then show ?thesis
    by (simp add: bytes_decode_def bytes_upper_def str_encode_def comp_def)
qed

lemma bytes_decode_crc:
  assumes "set crc \<subseteq> set ''0123456789ABCDEF''"
  shows "bytes_decode (str_encode crc) = Inr crc"
proof -
  have "set crc \<subseteq> set ''0123456789ABCDEFabcdef''"
    using assms upper_hex_subset by (rule subset_trans)
  from bytes_decode_hex_upper [OF this] have
    "bytes_decode (str_encode crc) = Inr (map (\<lambda>c. char_of_byte (byte_upper (of_char c))) crc)"
    by (simp add: bytes_upper_crc [OF assms])
  moreover have "map (\<lambda>c. char_of_byte (byte_upper (of_char c))) crc = crc"
  proof (rule map_idI)
    fix c assume "c \<in> set crc"
    with assms have "c \<in> set ''0123456789ABCDEF''" by (rule subsetD)
    from upper_hex_byte(1) [OF this] show "char_of_byte (byte_upper (of_char c)) = c"
      by (simp only: char_of_byte_of_char)
  qed
  ultimately show ?thesis by simp
qed

lemma encode_frame_shape:
  assumes "opcode < 256" and "unhexlify args = Inr bs"
    and "generate_crc (fmt_02X opcode @ args) = Inr crc"
  shows "encode_frame opcode args
           = Inr (STX # bytes_upper (str_encode (fmt_02X opcode @ args)) @ str_encode crc @ [ETX])"
proof -
  let ?msg = "fmt_02X opcode @ args"
  have "unhexlify (text_to_hex [STX] @ text_to_hex (str_encode (?msg @ crc)) @ text_to_hex [ETX])
          = Inr ([STX] @ str_encode (?msg @ crc) @ [ETX])"
    using unhexlify_text_to_hex_append [of "[ETX]" "[]"]
    by (simp add: unhexlify_text_to_hex_append)
  moreover have "bytes_upper ([STX] @ str_encode (?msg @ crc) @ [ETX])
          = STX # bytes_upper (str_encode ?msg) @ str_encode crc @ [ETX]"
    using bytes_upper_crc [OF generate_crc_chars(2) [OF assms(3)]]
    by (simp add: bytes_upper_def str_encode_def byte_upper_def STX_def ETX_def)
  ultimately show ?thesis
    using assms(3) by (simp add: encode_frame_def Let_def)
qed

lemma decode_encoded_frame:
  assumes "opcode < 256" and "opcode \<noteq> ERR_RA" and "unhexlify args = Inr bs"
    and "generate_crc (fmt_02X opcode @ args) = Inr crc"
  shows "decode_answer
           (STX # bytes_upper (str_encode (fmt_02X opcode @ args)) @ str_encode crc @ [ETX])
         = Inr (ANS_STATUS_DATA_RECEIVED, Some opcode, Some bs)"
proof -
  let ?msg = "fmt_02X opcode @ args"
  let ?M = "bytes_upper (str_encode ?msg)"
  let ?C = "str_encode crc"
  let ?U = "map (\<lambda>c. char_of_byte (byte_upper (of_char c))) ?msg"
  have um: "unhexlify ?msg = Inr (word_of_nat opcode # bs)"
    using assms(1,3) by (rule unhexlify_request)
  have lenC: "length ?C = 4"
    using generate_crc_chars(1) [OF assms(4)] by (simp add: str_encode_def)
  have lenM: "2 \<le> length ?M"
    using assms(1) by (simp add: bytes_upper_def str_encode_def fmt_02X_byte)
  have "length (STX # ?M @ ?C @ [ETX]) = length ?M + 6"
    using lenC by simp
  with lenM have long: "6 < length (STX # ?M @ ?C @ [ETX])"
    by linarith
  have dm: "bytes_decode ?M = Inr ?U"
    using unhexlify_chars [OF um] by (rule bytes_decode_hex_upper)
  have dc: "bytes_decode ?C = Inr crc"
    using generate_crc_chars(2) [OF assms(4)] by (rule bytes_decode_crc)
  have uu: "unhexlify ?U = Inr (word_of_nat opcode # bs)"
    using um by (rule unhexlify_upper)
  have gu: "generate_crc ?U = Inr crc"
    using assms(4) um uu by (simp add: generate_crc_def)
  have op: "unat (word_of_nat opcode :: byte) = opcode"
    using assms(1) by (simp add: unsigned_of_nat take_bit_nat_eq_self)
  show ?thesis
    unfolding decode_answer_def
    using long op assms(2)
    by (simp only: slice_message [OF lenC] slice_crc [OF lenC] dm dc uu gu
        if_True sum.case list.case refl if_False)
qed


lemma encoded_body_no_etx:
  assumes "unhexlify msg = Inr x" and "set crc \<subseteq> set ''0123456789ABCDEF''"
  shows "ETX \<notin> set (bytes_upper (str_encode msg) @ str_encode crc)"
proof -
  have "ETX \<notin> set (bytes_upper (str_encode msg))"
    using hex_bytes_upper(1) [OF unhexlify_chars [OF assms(1)]] by blast
  moreover have "ETX \<notin> set (bytes_upper (str_encode crc))"
    using hex_bytes_upper(1) [OF subset_trans [OF assms(2) upper_hex_subset]] by blast
  ultimately show ?thesis
    by (simp add: bytes_upper_crc [OF assms(2)])
qed

subsection \<open>The error frame that carries the code 0x7000\<close>

lemma error_code_7000_bytes:
  fixes b1 b2 :: byte
  assumes "push_bit 8 (unat b2) + unat b1 = ANS_STATUS_SUCCESS"
  shows "b1 = 0x00 \<and> b2 = 0x70"
proof -
  have l1: "unat b1 < 256" and l2: "unat b2 < 256"
    using unsigned_less [of b1, where ?'a = nat] unsigned_less [of b2, where ?'a = nat]
    by simp_all
  from assms have "256 * unat b2 + unat b1 = 28672"
    by (simp add: push_bit_eq_mult ANS_STATUS_SUCCESS_def mult.commute)
  with l1 l2 have "unat b1 = 0 \<and> unat b2 = 112" by arith
  then have "unat b1 = unat (0x00 :: byte) \<and> unat b2 = unat (0x70 :: byte)" by simp
  then show ?thesis by (simp only: word_unat_eq_iff [symmetric])
qed

lemma decode_answer_success_is_error_frame:
  assumes "decode_answer buf = Inr (ANS_STATUS_SUCCESS, opc, d)"
  shows "\<exists>message rest.
           bytes_decode (drop 1 (take (length buf - 5) buf)) = Inr message
         \<and> unhexlify message = Inr (0xFF # 0x00 # 0x70 # rest)"
proof -
  from assms obtain message com_buf where
    m: "bytes_decode (drop 1 (take (length buf - 5) buf)) = Inr message"
    and u: "unhexlify message = Inr com_buf"
    by (auto simp: decode_answer_def status_defs split: if_splits sum.splits)
  from assms m u obtain c0 payload where
    cb: "com_buf = c0 # payload" and c0: "unat c0 = ERR_RA" and len: "2 < length com_buf"
    and code: "push_bit 8 (unat (com_buf ! 2)) + unat (com_buf ! 1) = ANS_STATUS_SUCCESS"
    by (auto simp: decode_answer_def status_defs split: if_splits sum.splits list.splits)
  from cb len obtain b1 b2 rest where p: "payload = b1 # b2 # rest"
    by (cases payload; cases "tl payload") auto
  from code cb p have "b1 = 0x00 \<and> b2 = 0x70"
    by (intro error_code_7000_bytes) simp
  moreover from c0 have "c0 = 0xFF"
    by (simp add: ERR_RA_def word_unat_eq_iff)
  ultimately show ?thesis using m u cb p by simp
qed

subsection \<open>Capture loop and identifiers\<close>

lemma capture_stops_at_early_etx:
  "STX \<notin> set pre \<Longrightarrow> ETX \<notin> set pre \<Longrightarrow> capture False [] (pre @ ETX # post) = []"
  by (induction pre) (auto simp: capture.simps STX_def ETX_def)

lemma generate_message_id_is_text:
  "generate_message fresh payload True ident = Inr (message_id, message) \<Longrightarrow>
     \<exists>s. message_id = PyStr s"
  by (auto simp: generate_message_def split: if_splits sum.splits pyval.splits)

section \<open>Claims\<close>

text \<open>
  Claim C1. Every driver operation returns a status and an optional payload whatever
  the transport does; in particular \<open>guid_read\<close>, \<open>serial_number_read\<close> and
  \<open>product_number_read\<close> return a status when the transaction fails. The code does
  not: when the write fails, and when nothing arrives before the deadline, the three
  functions call \<open>decode\<close> on \<open>None\<close> and raise \<open>AttributeError\<close> instead of returning
  \<open>HW_ERR\<close> or \<open>TIMEOUT\<close>.
\<close>

theorem id_reads_raise_when_transaction_fails:
  "guid_read \<lparr>uart_write = (\<lambda>msg. None), uart_rx = []\<rparr> = Inl AttributeError
   \<and> serial_number_read \<lparr>uart_write = (\<lambda>msg. None), uart_rx = []\<rparr> = Inl AttributeError
   \<and> product_number_read \<lparr>uart_write = (\<lambda>msg. None), uart_rx = []\<rparr> = Inl AttributeError
   \<and> guid_read \<lparr>uart_write = (\<lambda>msg. Some (length msg)), uart_rx = []\<rparr> = Inl AttributeError"
  by (simp add: guid_read_def serial_number_read_def product_number_read_def
      encode_send_request_def request_frames return_decoded_def status_defs
      receive_decode_answer_def decode_answer_def capture.simps)

text \<open>
  Claim C2, as stated, fails: \<open>configuration_save\<close> expects \<open>CFG_SA\<close>; on a valid
  frame with opcode \<open>CFG_RA\<close> it returns \<open>ANS_STATUS_DATA_RECEIVED\<close>, the status of
  the decoding step, and not an \<open>OPCODE_NOT_VALID\<close> status.
\<close>

theorem opcode_mismatch_is_not_opcode_not_valid:
  "receive_decode_answer
      \<lparr>uart_write = (\<lambda>msg. Some (length msg)), uart_rx = STX # str_encode ''95EC32'' @ [ETX]\<rparr>
     = Inr (ANS_STATUS_DATA_RECEIVED, Some CFG_RA, Some [])
   \<and> CFG_RA \<noteq> CFG_SA
   \<and> configuration_save
      \<lparr>uart_write = (\<lambda>msg. Some (length msg)), uart_rx = STX # str_encode ''95EC32'' @ [ETX]\<rparr>
     = Inr ANS_STATUS_DATA_RECEIVED
   \<and> ANS_STATUS_DATA_RECEIVED \<noteq> ANS_STATUS_OPCODE_NOT_VALID"
  by (simp add: configuration_save_def encode_send_request_def request_frames answer_eval
      status_defs CFG_RA_def CFG_SA_def)


text \<open>
  Claim C2, amended. When the captured frame has a valid CRC and decodes to an answer
  opcode \<open>B\<close> different from the expected one, \<open>configuration_save\<close> and
  \<open>configuration_read\<close> return \<open>ANS_STATUS_DATA_RECEIVED\<close> unchanged, with no payload;
  they return \<open>ANS_STATUS_SUCCESS\<close> for a decoded answer only when its opcode is the
  expected one.
\<close>

theorem opcode_mismatch_keeps_data_received:
  assumes "receive_decode_answer port = Inr (ANS_STATUS_DATA_RECEIVED, Some B, data)"
  shows "(encode_send_request port CFG_SR [] = Inr ANS_STATUS_DATA_SENT \<and> B \<noteq> CFG_SA
            \<longrightarrow> configuration_save port = Inr ANS_STATUS_DATA_RECEIVED)
       \<and> (encode_send_request port CFG_RR [] = Inr ANS_STATUS_DATA_SENT \<and> B \<noteq> CFG_RA
            \<longrightarrow> configuration_read port = Inr (ANS_STATUS_DATA_RECEIVED, None))
       \<and> (configuration_save port = Inr ANS_STATUS_SUCCESS \<longrightarrow> B = CFG_SA)
       \<and> (configuration_read port = Inr (ANS_STATUS_SUCCESS, config) \<longrightarrow> B = CFG_RA)"
proof -
  have save_mismatch: "configuration_save port = Inr ANS_STATUS_DATA_RECEIVED"
    if "encode_send_request port CFG_SR [] = Inr ANS_STATUS_DATA_SENT" and "B \<noteq> CFG_SA"
    using that assms by (simp add: configuration_save_def)
  have read_mismatch: "configuration_read port = Inr (ANS_STATUS_DATA_RECEIVED, None)"
    if "encode_send_request port CFG_RR [] = Inr ANS_STATUS_DATA_SENT" and "B \<noteq> CFG_RA"
    using that assms by (simp add: configuration_read_def)
  have save_success: "B = CFG_SA" if a: "configuration_save port = Inr ANS_STATUS_SUCCESS"
  proof -
    obtain r where r: "encode_send_request port CFG_SR [] = Inr r"
      using a by (auto simp: configuration_save_def split: sum.splits)
    have "r = ANS_STATUS_DATA_SENT"
      using encode_send_request_status [OF r] a r
      by (auto simp: configuration_save_def status_defs)
    with a r assms show ?thesis
      by (auto simp: configuration_save_def status_defs split: if_splits)
  qed
  have read_success: "B = CFG_RA"
    if a: "configuration_read port = Inr (ANS_STATUS_SUCCESS, config)"
  proof -
    obtain r where r: "encode_send_request port CFG_RR [] = Inr r"
      using a by (auto simp: configuration_read_def split: sum.splits)
    have "r = ANS_STATUS_DATA_SENT"
      using encode_send_request_status [OF r] a r
      by (auto simp: configuration_read_def status_defs)
    with a r assms show ?thesis
      by (auto simp: configuration_read_def status_defs split: if_splits)
  qed
  from save_mismatch read_mismatch save_success read_success show ?thesis by blast
qed

theorem opcode_mismatch_keeps_data_received_witness:
  "configuration_save
      \<lparr>uart_write = (\<lambda>msg. Some (length msg)), uart_rx = STX # str_encode ''95EC32'' @ [ETX]\<rparr>
     = Inr ANS_STATUS_DATA_RECEIVED
   \<and> configuration_read
      \<lparr>uart_write = (\<lambda>msg. Some (length msg)), uart_rx = STX # str_encode ''904962'' @ [ETX]\<rparr>
     = Inr (ANS_STATUS_DATA_RECEIVED, None)
   \<and> configuration_save
      \<lparr>uart_write = (\<lambda>msg. Some (length msg)), uart_rx = STX # str_encode ''904962'' @ [ETX]\<rparr>
     = Inr ANS_STATUS_SUCCESS
   \<and> receive_decode_answer
      \<lparr>uart_write = (\<lambda>msg. Some (length msg)), uart_rx = STX # str_encode ''904962'' @ [ETX]\<rparr>
     = Inr (ANS_STATUS_DATA_RECEIVED, Some CFG_SA, Some [])
   \<and> (\<exists>config. configuration_read
      \<lparr>uart_write = (\<lambda>msg. Some (length msg)),
       uart_rx = STX # str_encode ''9503010203040F0003D740'' @ [ETX]\<rparr>
     = Inr (ANS_STATUS_SUCCESS, Some config))
   \<and> receive_decode_answer
      \<lparr>uart_write = (\<lambda>msg. Some (length msg)),
       uart_rx = STX # str_encode ''9503010203040F0003D740'' @ [ETX]\<rparr>
     = Inr (ANS_STATUS_DATA_RECEIVED, Some CFG_RA,
            Some [0x03, 0x01, 0x02, 0x03, 0x04, 0x0F, 0x00, 0x03])"
proof -
  let ?p = "\<lparr>uart_write = (\<lambda>msg. Some (length msg)), uart_rx = STX # str_encode ''95EC32'' @ [ETX]\<rparr>"
  let ?q = "\<lparr>uart_write = (\<lambda>msg. Some (length msg)), uart_rx = STX # str_encode ''904962'' @ [ETX]\<rparr>"
  let ?r = "\<lparr>uart_write = (\<lambda>msg. Some (length msg)),
       uart_rx = STX # str_encode ''9503010203040F0003D740'' @ [ETX]\<rparr>"
  have rp: "receive_decode_answer ?p = Inr (ANS_STATUS_DATA_RECEIVED, Some CFG_RA, Some [])"
    and rq: "receive_decode_answer ?q = Inr (ANS_STATUS_DATA_RECEIVED, Some CFG_SA, Some [])"
    and rr: "receive_decode_answer ?r = Inr (ANS_STATUS_DATA_RECEIVED, Some CFG_RA,
            Some [0x03, 0x01, 0x02, 0x03, 0x04, 0x0F, 0x00, 0x03])"
    by (simp_all add: answer_eval)
  have sp: "encode_send_request ?p CFG_SR [] = Inr ANS_STATUS_DATA_SENT \<and> CFG_RA \<noteq> CFG_SA"
    and sq: "encode_send_request ?q CFG_RR [] = Inr ANS_STATUS_DATA_SENT \<and> CFG_SA \<noteq> CFG_RA"
    by (simp_all add: encode_send_request_def request_frames CFG_RA_def CFG_SA_def)
  have c1: "configuration_save ?p = Inr ANS_STATUS_DATA_RECEIVED"
    using opcode_mismatch_keeps_data_received [OF rp] sp by blast
  have c2: "configuration_read ?q = Inr (ANS_STATUS_DATA_RECEIVED, None)"
    using opcode_mismatch_keeps_data_received [OF rq] sq by blast
  have c3: "configuration_save ?q = Inr ANS_STATUS_SUCCESS"
    by (simp add: configuration_save_def encode_send_request_def request_frames rq)
  have c4: "\<exists>config. configuration_read ?r = Inr (ANS_STATUS_SUCCESS, Some config)"
    by (simp add: configuration_read_def encode_send_request_def request_frames rr)
  from c1 c2 c3 c4 rq rr show ?thesis by blast
qed

text \<open>
  Claim C3, as stated, fails for the opcode byte \<open>0xFF\<close>: the frame that encodes
  \<open>(0xFF, "0102")\<close> is decoded as a terminal error frame, with the status \<open>0x0201\<close>
  and neither opcode nor payload.
\<close>

theorem error_opcode_does_not_round_trip:
  "unhexlify ''0102'' = Inr [0x01, 0x02]
   \<and> encode_frame 0xFF ''0102'' = Inr (STX # str_encode ''FF01028C10'' @ [ETX])
   \<and> receive_decode_answer
        \<lparr>uart_write = (\<lambda>msg. Some (length msg)),
         uart_rx = STX # str_encode ''FF01028C10'' @ [ETX]\<rparr>
       = Inr (0x0201, None, None)
   \<and> (0x0201 :: nat) \<noteq> ANS_STATUS_DATA_RECEIVED"
  by (simp add: unhexlify_eval frame_ERR_RA_0102 receive_decode_answer_def capture_err_0102
      decode_err_0102 status_defs del: unhexlify.simps)

text \<open>
  Claim C3, amended. For every opcode byte other than \<open>0xFF\<close> and every argument text
  that \<open>unhexlify\<close> accepts (hexadecimal digits of either case, even length), the frame
  that \<open>encode_send_request\<close> builds is the two markers around the upper-case text and
  its CRC; the capture loop returns exactly this frame from a stream that starts with
  it, and decoding it gives the status \<open>DATA_RECEIVED\<close>, the same opcode and the bytes
  the argument text denotes.
\<close>

theorem frame_round_trip:
  assumes "opcode < 256" and "opcode \<noteq> ERR_RA" and "unhexlify args = Inr bs"
  shows "\<exists>frame crc.
           encode_frame opcode args = Inr frame
         \<and> generate_crc (fmt_02X opcode @ args) = Inr crc
         \<and> frame = STX # bytes_upper (str_encode (fmt_02X opcode @ args)) @ str_encode crc @ [ETX]
         \<and> capture False [] (frame @ later) = frame
         \<and> decode_answer frame = Inr (ANS_STATUS_DATA_RECEIVED, Some opcode, Some bs)
         \<and> receive_decode_answer \<lparr>uart_write = w, uart_rx = frame @ later\<rparr>
             = Inr (ANS_STATUS_DATA_RECEIVED, Some opcode, Some bs)"
proof -
  let ?msg = "fmt_02X opcode @ args"
  have um: "unhexlify ?msg = Inr (word_of_nat opcode # bs)"
    using assms(1,3) by (rule unhexlify_request)
  then obtain crc where crc: "generate_crc ?msg = Inr crc"
    by (simp add: generate_crc_def Let_def)
  let ?frame = "STX # bytes_upper (str_encode ?msg) @ str_encode crc @ [ETX]"
  have enc: "encode_frame opcode args = Inr ?frame"
    using assms(1,3) crc by (rule encode_frame_shape)
  have dec: "decode_answer ?frame = Inr (ANS_STATUS_DATA_RECEIVED, Some opcode, Some bs)"
    using assms crc by (rule decode_encoded_frame)
  have "ETX \<notin> set (bytes_upper (str_encode ?msg) @ str_encode crc)"
    using um generate_crc_chars(2) [OF crc] by (rule encoded_body_no_etx)
  from capture_framed [OF this, of later]
  have cap: "capture False [] (?frame @ later) = ?frame"
    by simp
  have "receive_decode_answer \<lparr>uart_write = w, uart_rx = ?frame @ later\<rparr>
          = Inr (ANS_STATUS_DATA_RECEIVED, Some opcode, Some bs)"
    by (simp only: receive_decode_answer_def uart.simps cap dec)
  with enc crc cap dec show ?thesis by blast
qed

theorem frame_round_trip_witness:
  "PLD_ER < 256 \<and> PLD_ER \<noteq> ERR_RA
   \<and> unhexlify ''12ab41'' = Inr [0x12, 0xAB, 0x41]
   \<and> encode_frame PLD_ER ''12ab41'' = Inr (STX # str_encode ''2512AB41A9BB'' @ [ETX])
   \<and> receive_decode_answer
        \<lparr>uart_write = (\<lambda>msg. Some (length msg)),
         uart_rx = (STX # str_encode ''2512AB41A9BB'' @ [ETX]) @ [0x41, 0x42]\<rparr>
       = Inr (ANS_STATUS_DATA_RECEIVED, Some PLD_ER, Some [0x12, 0xAB, 0x41])"
proof -
  have h1: "PLD_ER < 256" and h2: "PLD_ER \<noteq> ERR_RA"
    by (simp_all add: PLD_ER_def ERR_RA_def)
  have h3: "unhexlify ''12ab41'' = Inr [0x12, 0xAB, 0x41]"
    by (rule unhexlify_eval)
  from frame_round_trip [OF h1 h2 h3, of "[0x41, 0x42]" "\<lambda>msg. Some (length msg)"]
  obtain frame where
    f: "encode_frame PLD_ER ''12ab41'' = Inr frame"
    and r: "receive_decode_answer
        \<lparr>uart_write = (\<lambda>msg. Some (length msg)), uart_rx = frame @ [0x41, 0x42]\<rparr>
       = Inr (ANS_STATUS_DATA_RECEIVED, Some PLD_ER, Some [0x12, 0xAB, 0x41])"
    by blast
  from f have "frame = STX # str_encode ''2512AB41A9BB'' @ [ETX]"
    by (simp add: frame_PLD_ER_12ab41)
  with h1 h2 h3 r show ?thesis
    by (simp only: frame_PLD_ER_12ab41 simp_thms)
qed

text \<open>
  Claim C4. \<open>_crc16\<close> is a function of its input that starts from \<open>0xFFFF\<close>: on the
  empty input it returns \<open>0xFFFF\<close>, on the bytes of \<open>123456789\<close> it returns \<open>0x29B1\<close>,
  its result always fits 16 bits, every table index it uses is inside the table, and one
  more byte is one more masked step.
\<close>

theorem crc16_ccitt:
  "crc16 [] = 0xFFFF
   \<and> crc16 (str_encode ''123456789'') = 0x29B1
   \<and> crc16 data \<le> 0xFFFF
   \<and> drop_bit 8 (crc16 data) XOR unat (b::byte) < length crc_table
   \<and> crc16 (data @ [b]) =
       (push_bit 8 (crc16 data) XOR crc_table ! (drop_bit 8 (crc16 data) XOR unat b)) AND 0xFFFF"
proof -
  have "crc16 [] = 0xFFFF" by (simp add: crc16_def)
  moreover have "crc16 data \<le> 0xFFFF" using crc16_bound [of data] by simp
  moreover have "crc16 (data @ [b]) =
       (push_bit 8 (crc16 data) XOR crc_table ! (drop_bit 8 (crc16 data) XOR unat b)) AND 0xFFFF"
    by (simp add: crc16_snoc crc16_step_def)
  ultimately show ?thesis
    using crc16_check_vector crc16_index_in_table by blast
qed

text \<open>
  Claim C5. A captured frame of exactly six bytes (the two markers and a four-character
  CRC, empty body) is accepted into CRC verification. The code tests
  \<open>len(message_buffer) > 6\<close>: the six-byte frame whose CRC field is the valid CRC of the
  empty body is reported as \<open>TIMEOUT\<close>.
\<close>

theorem six_byte_frame_reported_as_timeout:
  "length (STX # str_encode ''FFFF'' @ [ETX]) = 6
   \<and> generate_crc [] = Inr ''FFFF''
   \<and> capture False [] (STX # str_encode ''FFFF'' @ [ETX]) = STX # str_encode ''FFFF'' @ [ETX]
   \<and> receive_decode_answer
        \<lparr>uart_write = (\<lambda>msg. Some (length msg)), uart_rx = STX # str_encode ''FFFF'' @ [ETX]\<rparr>
       = Inr (ANS_STATUS_TIMEOUT, None, None)"
proof -
  have "generate_crc [] = Inr ''FFFF''"
    by (simp add: generate_crc_def crc16_def fmt_04X_def hex_str.simps zero_pad_def hex_char_def)
  moreover have "length (STX # str_encode ''FFFF'' @ [ETX]) = 6"
    by (simp add: str_encode_def)
  ultimately show ?thesis
    by (simp add: answer_eval)
qed

text \<open>
  Claim C6, as stated, fails: a write that reports fewer bytes than the frame holds
  (3 of 8 here) is \<open>DATA_SENT\<close>, not \<open>HW_ERR\<close>.
\<close>

theorem short_write_reported_as_data_sent:
  "encode_frame RTC_RR [] = Inr (STX # str_encode ''172683'' @ [ETX])
   \<and> uart_write \<lparr>uart_write = (\<lambda>msg. Some 3), uart_rx = []\<rparr> (STX # str_encode ''172683'' @ [ETX])
       = Some 3
   \<and> 3 < length (STX # str_encode ''172683'' @ [ETX])
   \<and> encode_send_request \<lparr>uart_write = (\<lambda>msg. Some 3), uart_rx = []\<rparr> RTC_RR []
       = Inr ANS_STATUS_DATA_SENT
   \<and> ANS_STATUS_DATA_SENT \<noteq> ANS_STATUS_HW_ERR"
  by (simp add: encode_send_request_def frame_RTC_RR str_encode_def status_defs)

text \<open>
  Claim C6, amended. For every frame passed to the write, \<open>HW_ERR\<close> is returned when
  the write returns \<open>None\<close>, and \<open>DATA_SENT\<close> when it returns a byte count, whatever
  the count.
\<close>

theorem send_status_follows_write_result:
  assumes "encode_frame opcode data = Inr msg"
  shows "(uart_write port msg = None \<longrightarrow>
            encode_send_request port opcode data = Inr ANS_STATUS_HW_ERR)
       \<and> (uart_write port msg = Some n \<longrightarrow>
            encode_send_request port opcode data = Inr ANS_STATUS_DATA_SENT)"
  using assms by (simp add: encode_send_request_def)

theorem send_status_follows_write_result_witness:
  "encode_frame RTC_RR [] = Inr (STX # str_encode ''172683'' @ [ETX])
   \<and> uart_write \<lparr>uart_write = (\<lambda>msg. if length msg = 8 then Some 8 else None), uart_rx = []\<rparr>
         (STX # str_encode ''172683'' @ [ETX]) = Some 8
   \<and> encode_send_request
         \<lparr>uart_write = (\<lambda>msg. if length msg = 8 then Some 8 else None), uart_rx = []\<rparr> RTC_RR []
       = Inr ANS_STATUS_DATA_SENT
   \<and> uart_write \<lparr>uart_write = (\<lambda>msg. None), uart_rx = []\<rparr>
         (STX # str_encode ''172683'' @ [ETX]) = None
   \<and> encode_send_request \<lparr>uart_write = (\<lambda>msg. None), uart_rx = []\<rparr> RTC_RR []
       = Inr ANS_STATUS_HW_ERR"
  using send_status_follows_write_result [OF frame_RTC_RR,
      of "\<lparr>uart_write = (\<lambda>msg. if length msg = 8 then Some 8 else None), uart_rx = []\<rparr>" 8]
    send_status_follows_write_result [OF frame_RTC_RR,
      of "\<lparr>uart_write = (\<lambda>msg. None), uart_rx = []\<rparr>" 0]
  by (simp add: frame_RTC_RR str_encode_def)

text \<open>
  Claim C7, as stated, fails: when the terminal answers the RTC request with an
  error frame (opcode \<open>0xFF\<close>) whose error code is \<open>0x7000\<close>, \<open>rtc_read\<close> returns the
  value of \<open>ANS_STATUS_SUCCESS\<close> and no time.
\<close>

theorem rtc_read_success_without_time:
  "receive_decode_answer
      \<lparr>uart_write = (\<lambda>msg. Some (length msg)), uart_rx = STX # str_encode ''FF0070687D'' @ [ETX]\<rparr>
     = Inr (ANS_STATUS_SUCCESS, None, None)
   \<and> rtc_read
      \<lparr>uart_write = (\<lambda>msg. Some (length msg)), uart_rx = STX # str_encode ''FF0070687D'' @ [ETX]\<rparr>
     = Inr (ANS_STATUS_SUCCESS, None)"
  by (simp add: rtc_read_def encode_send_request_def request_frames answer_eval status_defs)

text \<open>
  Claim C7, amended. An RTC read whose request was sent and whose answer decodes to
  opcode \<open>RTC_RA\<close> with at least four payload bytes returns \<open>SUCCESS\<close> and the
  little-endian value of the first four bytes plus \<open>1514764800\<close>; every time that
  \<open>rtc_read\<close> returns is that value of such an answer; and \<open>SUCCESS\<close> comes without a
  time only when the captured frame is a terminal error frame (first byte \<open>0xFF\<close>)
  whose error code bytes are \<open>00 70\<close>. The answer with opcode \<open>0x97\<close> and payload
  \<open>00 00 00 00\<close> gives \<open>1514764800\<close>.
\<close>

theorem rtc_read_time_or_error_code:
  "(encode_send_request port RTC_RR [] = Inr ANS_STATUS_DATA_SENT
      \<and> receive_decode_answer port = Inr (ANS_STATUS_DATA_RECEIVED, Some RTC_RA, Some d)
      \<and> 4 \<le> length d
     \<longrightarrow> rtc_read port =
          Inr (ANS_STATUS_SUCCESS,
               Some (unat (d ! 0) + 256 * unat (d ! 1) + 65536 * unat (d ! 2)
                     + 16777216 * unat (d ! 3) + 1514764800)))
   \<and> (rtc_read port = Inr (status, Some t)
     \<longrightarrow> status = ANS_STATUS_SUCCESS
         \<and> (\<exists>d'. receive_decode_answer port
                    = Inr (ANS_STATUS_DATA_RECEIVED, Some RTC_RA, Some d')
                \<and> 4 \<le> length d'
                \<and> t = unat (d' ! 0) + 256 * unat (d' ! 1) + 65536 * unat (d' ! 2)
                      + 16777216 * unat (d' ! 3) + 1514764800))
   \<and> (rtc_read port = Inr (ANS_STATUS_SUCCESS, None)
     \<longrightarrow> receive_decode_answer port = Inr (ANS_STATUS_SUCCESS, None, None)
         \<and> (\<exists>message rest.
                bytes_decode (drop 1 (take (length (capture False [] (uart_rx port)) - 5)
                                        (capture False [] (uart_rx port)))) = Inr message
              \<and> unhexlify message = Inr (0xFF # 0x00 # 0x70 # rest)))"
proof -
  have fwd: "rtc_read port =
          Inr (ANS_STATUS_SUCCESS,
               Some (unat (d ! 0) + 256 * unat (d ! 1) + 65536 * unat (d ! 2)
                     + 16777216 * unat (d ! 3) + 1514764800))"
    if "encode_send_request port RTC_RR [] = Inr ANS_STATUS_DATA_SENT"
      and "receive_decode_answer port = Inr (ANS_STATUS_DATA_RECEIVED, Some RTC_RA, Some d)"
      and "4 \<le> length d"
    using that by (simp add: rtc_read_def ASTROCAST_REF_UNIX_TIME_def push_bit_eq_mult)
  have bwd: "status = ANS_STATUS_SUCCESS
         \<and> (\<exists>d'. receive_decode_answer port
                    = Inr (ANS_STATUS_DATA_RECEIVED, Some RTC_RA, Some d')
                \<and> 4 \<le> length d'
                \<and> t = unat (d' ! 0) + 256 * unat (d' ! 1) + 65536 * unat (d' ! 2)
                      + 16777216 * unat (d' ! 3) + 1514764800)"
    if a: "rtc_read port = Inr (status, Some t)"
  proof -
    obtain r where r: "encode_send_request port RTC_RR [] = Inr r"
      using a by (auto simp: rtc_read_def split: sum.splits)
    have sent: "r = ANS_STATUS_DATA_SENT"
      using a r by (auto simp: rtc_read_def split: if_splits)
    obtain rv opc dat where rx: "receive_decode_answer port = Inr (rv, opc, dat)"
      using a r sent by (auto simp: rtc_read_def split: sum.splits)
    have m: "rv = ANS_STATUS_DATA_RECEIVED \<and> opc = Some RTC_RA"
      using a r sent rx by (auto simp: rtc_read_def split: if_splits)
    obtain d' where d': "dat = Some d'"
      using a r sent rx m by (cases dat) (auto simp: rtc_read_def)
    have len: "4 \<le> length d'"
      using a r sent rx m d' by (auto simp: rtc_read_def split: if_splits)
    have "status = ANS_STATUS_SUCCESS
        \<and> t = unat (d' ! 0) + 256 * unat (d' ! 1) + 65536 * unat (d' ! 2)
              + 16777216 * unat (d' ! 3) + 1514764800"
      using a r sent rx m d' len
      by (auto simp: rtc_read_def ASTROCAST_REF_UNIX_TIME_def push_bit_eq_mult)
    with rx m d' len show ?thesis by blast
  qed
  have err: "receive_decode_answer port = Inr (ANS_STATUS_SUCCESS, None, None)
         \<and> (\<exists>message rest.
                bytes_decode (drop 1 (take (length (capture False [] (uart_rx port)) - 5)
                                        (capture False [] (uart_rx port)))) = Inr message
              \<and> unhexlify message = Inr (0xFF # 0x00 # 0x70 # rest))"
    if a: "rtc_read port = Inr (ANS_STATUS_SUCCESS, None)"
  proof -
    obtain r where r: "encode_send_request port RTC_RR [] = Inr r"
      using a by (auto simp: rtc_read_def split: sum.splits)
    have sent: "r = ANS_STATUS_DATA_SENT"
      using encode_send_request_status [OF r] a r
      by (auto simp: rtc_read_def status_defs)
    obtain rv opc dat where rx: "receive_decode_answer port = Inr (rv, opc, dat)"
      using a r sent by (auto simp: rtc_read_def split: sum.splits)
    have rv: "rv = ANS_STATUS_SUCCESS"
      using a r sent rx
      by (auto simp: rtc_read_def Let_def split: if_splits option.splits)
    from decode_answer_shape [of "capture False [] (uart_rx port)" rv opc dat] rx rv
    have "opc = None \<and> dat = None"
      by (auto simp: receive_decode_answer_def status_defs)
    with rx rv have rxs: "receive_decode_answer port = Inr (ANS_STATUS_SUCCESS, None, None)"
      by simp
    then have "decode_answer (capture False [] (uart_rx port))
                 = Inr (ANS_STATUS_SUCCESS, None, None)"
      by (simp only: receive_decode_answer_def)
    from decode_answer_success_is_error_frame [OF this] rxs show ?thesis by blast
  qed
  from fwd bwd err show ?thesis by blast
qed

theorem rtc_read_time_or_error_code_witness:
  "encode_send_request
      \<lparr>uart_write = (\<lambda>msg. Some (length msg)),
       uart_rx = STX # str_encode ''97000000005250'' @ [ETX]\<rparr> RTC_RR []
     = Inr ANS_STATUS_DATA_SENT
   \<and> receive_decode_answer
      \<lparr>uart_write = (\<lambda>msg. Some (length msg)),
       uart_rx = STX # str_encode ''97000000005250'' @ [ETX]\<rparr>
     = Inr (ANS_STATUS_DATA_RECEIVED, Some RTC_RA, Some [0x00, 0x00, 0x00, 0x00])
   \<and> RTC_RA = 0x97
   \<and> rtc_read
      \<lparr>uart_write = (\<lambda>msg. Some (length msg)),
       uart_rx = STX # str_encode ''97000000005250'' @ [ETX]\<rparr>
     = Inr (ANS_STATUS_SUCCESS, Some 1514764800)
   \<and> rtc_read
      \<lparr>uart_write = (\<lambda>msg. Some (length msg)), uart_rx = STX # str_encode ''FF0070687D'' @ [ETX]\<rparr>
     = Inr (ANS_STATUS_SUCCESS, None)
   \<and> receive_decode_answer
      \<lparr>uart_write = (\<lambda>msg. Some (length msg)), uart_rx = STX # str_encode ''FF0070687D'' @ [ETX]\<rparr>
     = Inr (ANS_STATUS_SUCCESS, None, None)"
proof -
  let ?p = "\<lparr>uart_write = (\<lambda>msg. Some (length msg)),
       uart_rx = STX # str_encode ''97000000005250'' @ [ETX]\<rparr>"
  let ?q = "\<lparr>uart_write = (\<lambda>msg. Some (length msg)), uart_rx = STX # str_encode ''FF0070687D'' @ [ETX]\<rparr>"
  have s: "encode_send_request ?p RTC_RR [] = Inr ANS_STATUS_DATA_SENT"
    by (simp add: encode_send_request_def request_frames)
  have r: "receive_decode_answer ?p
     = Inr (ANS_STATUS_DATA_RECEIVED, Some RTC_RA, Some [0x00, 0x00, 0x00, 0x00])"
    by (simp add: answer_eval)
  have h: "encode_send_request ?p RTC_RR [] = Inr ANS_STATUS_DATA_SENT
      \<and> receive_decode_answer ?p
          = Inr (ANS_STATUS_DATA_RECEIVED, Some RTC_RA, Some [0x00, 0x00, 0x00, 0x00])
      \<and> 4 \<le> length [0x00, 0x00, 0x00, 0x00 :: byte]"
    using s r by simp
  have "rtc_read ?p = Inr (ANS_STATUS_SUCCESS,
               Some (unat ([0x00, 0x00, 0x00, 0x00 :: byte] ! 0)
                     + 256 * unat ([0x00, 0x00, 0x00, 0x00 :: byte] ! 1)
                     + 65536 * unat ([0x00, 0x00, 0x00, 0x00 :: byte] ! 2)
                     + 16777216 * unat ([0x00, 0x00, 0x00, 0x00 :: byte] ! 3) + 1514764800))"
    using rtc_read_time_or_error_code [of ?p "[0x00, 0x00, 0x00, 0x00]",
        THEN conjunct1, rule_format, OF h] .
  then have t: "rtc_read ?p = Inr (ANS_STATUS_SUCCESS, Some 1514764800)"
    by simp
  have e: "rtc_read ?q = Inr (ANS_STATUS_SUCCESS, None)"
    by (simp add: rtc_read_def encode_send_request_def request_frames answer_eval status_defs)
  have c: "receive_decode_answer ?q = Inr (ANS_STATUS_SUCCESS, None, None)"
    using rtc_read_time_or_error_code [THEN conjunct2, THEN conjunct2, rule_format, OF e,
        THEN conjunct1] .
  have "RTC_RA = 0x97" by (simp add: RTC_RA_def)
  with s r t e c show ?thesis by blast
qed

text \<open>
  Claim C8, as stated, fails: \<open>enqueue_payload\<close> returns the value of
  \<open>ANS_STATUS_SUCCESS\<close> when the terminal answers with an error frame whose error
  code is \<open>0x7000\<close>.
\<close>

theorem enqueue_payload_passes_error_code_7000:
  "receive_decode_answer
      \<lparr>uart_write = (\<lambda>msg. Some (length msg)), uart_rx = STX # str_encode ''FF0070687D'' @ [ETX]\<rparr>
     = Inr (ANS_STATUS_SUCCESS, None, None)
   \<and> enqueue_payload
      \<lparr>uart_write = (\<lambda>msg. Some (length msg)), uart_rx = STX # str_encode ''FF0070687D'' @ [ETX]\<rparr>
      (Inl ValueError) [0x41] (PyStr ''1234'')
     = Inr (ANS_STATUS_SUCCESS, PyStr ''1234'')"
  by (simp add: enqueue_payload_def generate_message_def text_to_hex_def hex_char_def
      encode_send_request_def frame_PLD_ER_123441 answer_eval status_defs ASN_MAX_MSG_SIZE_def)

text \<open>
  Claim C8, amended. The identifier \<open>enqueue_payload\<close> sends is a text and the one it
  decodes from the answer is a number, so the comparison is false: every \<open>PLD_EA\<close>
  answer with its two identifier bytes gives \<open>ANS_STATUS_PAYLOAD_ID_CHECK_FAILED\<close>,
  also when the bytes echo the identifier sent; the value \<open>0x7000\<close> is returned only
  when the captured frame is a terminal error frame (first byte \<open>0xFF\<close>) whose error
  code bytes are \<open>00 70\<close>.
\<close>

theorem enqueue_payload_never_promotes:
  "(length data \<le> ASN_MAX_MSG_SIZE
      \<and> generate_message fresh data True ident = Inr (message_id, message)
      \<and> encode_send_request port PLD_ER message = Inr ANS_STATUS_DATA_SENT
      \<and> receive_decode_answer port = Inr (ANS_STATUS_DATA_RECEIVED, Some PLD_EA, Some d)
      \<and> 2 \<le> length d
     \<longrightarrow> enqueue_payload port fresh data ident
          = Inr (ANS_STATUS_PAYLOAD_ID_CHECK_FAILED, message_id))
   \<and> (enqueue_payload port fresh data ident = Inr (ANS_STATUS_SUCCESS, x)
     \<longrightarrow> receive_decode_answer port = Inr (ANS_STATUS_SUCCESS, None, None)
         \<and> (\<exists>message rest.
                bytes_decode (drop 1 (take (length (capture False [] (uart_rx port)) - 5)
                                        (capture False [] (uart_rx port)))) = Inr message
              \<and> unhexlify message = Inr (0xFF # 0x00 # 0x70 # rest)))"
proof -
  have fwd: "enqueue_payload port fresh data ident
          = Inr (ANS_STATUS_PAYLOAD_ID_CHECK_FAILED, message_id)"
    if "length data \<le> ASN_MAX_MSG_SIZE"
      and g: "generate_message fresh data True ident = Inr (message_id, message)"
      and "encode_send_request port PLD_ER message = Inr ANS_STATUS_DATA_SENT"
      and "receive_decode_answer port = Inr (ANS_STATUS_DATA_RECEIVED, Some PLD_EA, Some d)"
      and "2 \<le> length d"
  proof -
    from generate_message_id_is_text [OF g] obtain s where "message_id = PyStr s" ..
    with that show ?thesis by (simp add: enqueue_payload_def)
  qed
  have bwd: "receive_decode_answer port = Inr (ANS_STATUS_SUCCESS, None, None)
         \<and> (\<exists>message rest.
                bytes_decode (drop 1 (take (length (capture False [] (uart_rx port)) - 5)
                                        (capture False [] (uart_rx port)))) = Inr message
              \<and> unhexlify message = Inr (0xFF # 0x00 # 0x70 # rest))"
    if a: "enqueue_payload port fresh data ident = Inr (ANS_STATUS_SUCCESS, x)"
  proof -
    have len: "length data \<le> ASN_MAX_MSG_SIZE"
      using a by (auto simp: enqueue_payload_def status_defs split: if_splits)
    obtain mid m where g: "generate_message fresh data True ident = Inr (mid, m)"
      using a len by (auto simp: enqueue_payload_def split: sum.splits)
    from generate_message_id_is_text [OF g] obtain s where s: "mid = PyStr s" ..
    obtain r where r: "encode_send_request port PLD_ER m = Inr r"
      using a len g by (auto simp: enqueue_payload_def split: sum.splits)
    have sent: "r = ANS_STATUS_DATA_SENT"
      using encode_send_request_status [OF r] a len g r
      by (auto simp: enqueue_payload_def status_defs)
    obtain rv opc dat where rx: "receive_decode_answer port = Inr (rv, opc, dat)"
      using a len g r sent by (auto simp: enqueue_payload_def split: sum.splits)
    have rv: "rv = ANS_STATUS_SUCCESS"
      using a len g s r sent rx
      by (auto simp: enqueue_payload_def status_defs Let_def
          split: if_splits option.splits)
    from decode_answer_shape [of "capture False [] (uart_rx port)" rv opc dat] rx rv
    have "opc = None \<and> dat = None"
      by (auto simp: receive_decode_answer_def status_defs)
    with rx rv have rxs: "receive_decode_answer port = Inr (ANS_STATUS_SUCCESS, None, None)"
      by simp
    then have "decode_answer (capture False [] (uart_rx port))
                 = Inr (ANS_STATUS_SUCCESS, None, None)"
      by (simp only: receive_decode_answer_def)
    from decode_answer_success_is_error_frame [OF this] rxs show ?thesis by blast
  qed
  from fwd bwd show ?thesis by blast
qed


theorem enqueue_payload_never_promotes_witness:
  "generate_message (Inl ValueError) [0x41] True (PyStr ''1234'') = Inr (PyStr ''1234'', ''123441'')
   \<and> encode_send_request
      \<lparr>uart_write = (\<lambda>msg. Some (length msg)), uart_rx = STX # str_encode ''A512343689'' @ [ETX]\<rparr>
      PLD_ER ''123441'' = Inr ANS_STATUS_DATA_SENT
   \<and> receive_decode_answer
      \<lparr>uart_write = (\<lambda>msg. Some (length msg)), uart_rx = STX # str_encode ''A512343689'' @ [ETX]\<rparr>
     = Inr (ANS_STATUS_DATA_RECEIVED, Some PLD_EA, Some [0x12, 0x34])
   \<and> enqueue_payload
      \<lparr>uart_write = (\<lambda>msg. Some (length msg)), uart_rx = STX # str_encode ''A512343689'' @ [ETX]\<rparr>
      (Inl ValueError) [0x41] (PyStr ''1234'')
     = Inr (ANS_STATUS_PAYLOAD_ID_CHECK_FAILED, PyStr ''1234'')
   \<and> enqueue_payload
      \<lparr>uart_write = (\<lambda>msg. Some (length msg)), uart_rx = STX # str_encode ''FF0070687D'' @ [ETX]\<rparr>
      (Inl ValueError) [0x41] (PyStr ''1234'')
     = Inr (ANS_STATUS_SUCCESS, PyStr ''1234'')
   \<and> receive_decode_answer
      \<lparr>uart_write = (\<lambda>msg. Some (length msg)), uart_rx = STX # str_encode ''FF0070687D'' @ [ETX]\<rparr>
     = Inr (ANS_STATUS_SUCCESS, None, None)"
proof -
  let ?p = "\<lparr>uart_write = (\<lambda>msg. Some (length msg)), uart_rx = STX # str_encode ''A512343689'' @ [ETX]\<rparr>"
  let ?q = "\<lparr>uart_write = (\<lambda>msg. Some (length msg)), uart_rx = STX # str_encode ''FF0070687D'' @ [ETX]\<rparr>"
  have g: "generate_message (Inl ValueError) [0x41] True (PyStr ''1234'')
             = Inr (PyStr ''1234'', ''123441'')"
    by (simp add: generate_message_def text_to_hex_def hex_char_def)
  have s: "encode_send_request ?p PLD_ER ''123441'' = Inr ANS_STATUS_DATA_SENT"
    by (simp add: encode_send_request_def frame_PLD_ER_123441)
  have r: "receive_decode_answer ?p
             = Inr (ANS_STATUS_DATA_RECEIVED, Some PLD_EA, Some [0x12, 0x34])"
    by (simp add: answer_eval)
  have h: "length [0x41 :: byte] \<le> ASN_MAX_MSG_SIZE
      \<and> generate_message (Inl ValueError) [0x41] True (PyStr ''1234'')
          = Inr (PyStr ''1234'', ''123441'')
      \<and> encode_send_request ?p PLD_ER ''123441'' = Inr ANS_STATUS_DATA_SENT
      \<and> receive_decode_answer ?p
          = Inr (ANS_STATUS_DATA_RECEIVED, Some PLD_EA, Some [0x12, 0x34])
      \<and> 2 \<le> length [0x12, 0x34 :: byte]"
    using g s r by (simp add: ASN_MAX_MSG_SIZE_def)
  have c1: "enqueue_payload ?p (Inl ValueError) [0x41] (PyStr ''1234'')
             = Inr (ANS_STATUS_PAYLOAD_ID_CHECK_FAILED, PyStr ''1234'')"
    using enqueue_payload_never_promotes [THEN conjunct1, rule_format, OF h] .
  have c2: "enqueue_payload ?q (Inl ValueError) [0x41] (PyStr ''1234'')
             = Inr (ANS_STATUS_SUCCESS, PyStr ''1234'')"
    by (simp add: enqueue_payload_def g encode_send_request_def frame_PLD_ER_123441
        answer_eval status_defs ASN_MAX_MSG_SIZE_def)
  have c3: "receive_decode_answer ?q = Inr (ANS_STATUS_SUCCESS, None, None)"
    using enqueue_payload_never_promotes [THEN conjunct2, rule_format, OF c2, THEN conjunct1] .
  from g s r c1 c2 c3 show ?thesis by blast
qed

text \<open>
  Claim C9, as stated, fails: \<open>factory_reset\<close> returns the value of
  \<open>ANS_STATUS_SUCCESS\<close> when the terminal answers with an error frame (opcode \<open>0xFF\<close>)
  whose 16-bit error code is \<open>0x7000\<close>, because an error code is returned verbatim as
  the status.
\<close>

theorem factory_reset_passes_error_code_7000:
  "receive_decode_answer
      \<lparr>uart_write = (\<lambda>msg. Some (length msg)), uart_rx = STX # str_encode ''FF0070687D'' @ [ETX]\<rparr>
     = Inr (ANS_STATUS_SUCCESS, None, None)
   \<and> factory_reset
      \<lparr>uart_write = (\<lambda>msg. Some (length msg)), uart_rx = STX # str_encode ''FF0070687D'' @ [ETX]\<rparr>
     = Inr ANS_STATUS_SUCCESS"
  by (simp add: factory_reset_def encode_send_request_def request_frames answer_eval status_defs)

text \<open>
  Claim C9, amended. \<open>factory_reset\<close> never promotes a received answer to
  \<open>ANS_STATUS_SUCCESS\<close>: after a request that was sent, every answer decoded as
  \<open>DATA_RECEIVED\<close>, a valid \<open>CFG_FA\<close> answer included, leaves the status at
  \<open>ANS_STATUS_DATA_RECEIVED\<close>; the value \<open>0x7000\<close> is returned only when the
  captured frame is a terminal error frame (first byte \<open>0xFF\<close>) whose error code bytes
  are \<open>00 70\<close>.
\<close>

theorem factory_reset_never_promotes:
  "(encode_send_request port CFG_FR [] = Inr ANS_STATUS_DATA_SENT
      \<and> receive_decode_answer port = Inr (ANS_STATUS_DATA_RECEIVED, opcode, data)
     \<longrightarrow> factory_reset port = Inr ANS_STATUS_DATA_RECEIVED)
   \<and> (factory_reset port = Inr ANS_STATUS_SUCCESS
     \<longrightarrow> receive_decode_answer port = Inr (ANS_STATUS_SUCCESS, None, None)
         \<and> (\<exists>message rest.
                bytes_decode (drop 1 (take (length (capture False [] (uart_rx port)) - 5)
                                        (capture False [] (uart_rx port)))) = Inr message
              \<and> unhexlify message = Inr (0xFF # 0x00 # 0x70 # rest)))"
proof -
  have fwd: "factory_reset port = Inr ANS_STATUS_DATA_RECEIVED"
    if "encode_send_request port CFG_FR [] = Inr ANS_STATUS_DATA_SENT"
      and "receive_decode_answer port = Inr (ANS_STATUS_DATA_RECEIVED, opcode, data)"
    using that by (simp add: factory_reset_def CFG_FR_def CFG_FA_def)
  have bwd: "receive_decode_answer port = Inr (ANS_STATUS_SUCCESS, None, None)
         \<and> (\<exists>message rest.
                bytes_decode (drop 1 (take (length (capture False [] (uart_rx port)) - 5)
                                        (capture False [] (uart_rx port)))) = Inr message
              \<and> unhexlify message = Inr (0xFF # 0x00 # 0x70 # rest))"
    if a: "factory_reset port = Inr ANS_STATUS_SUCCESS"
  proof -
    obtain r where r: "encode_send_request port CFG_FR [] = Inr r"
      using a by (auto simp: factory_reset_def Let_def split: sum.splits)
    from encode_send_request_status [OF r] a r
    have sent: "r = ANS_STATUS_DATA_SENT"
      by (auto simp: factory_reset_def Let_def status_defs)
    from a r sent obtain rv opc d where
      rx: "receive_decode_answer port = Inr (rv, opc, d)" and rv: "rv = ANS_STATUS_SUCCESS"
      by (auto simp: factory_reset_def Let_def CFG_FR_def CFG_FA_def split: sum.splits)
    from decode_answer_shape [of "capture False [] (uart_rx port)" rv opc d] rx rv
    have "opc = None \<and> d = None"
      by (auto simp: receive_decode_answer_def status_defs)
    with rx rv have rxs: "receive_decode_answer port = Inr (ANS_STATUS_SUCCESS, None, None)"
      by simp
    then have "decode_answer (capture False [] (uart_rx port))
                 = Inr (ANS_STATUS_SUCCESS, None, None)"
      by (simp only: receive_decode_answer_def)
    from decode_answer_success_is_error_frame [OF this] rxs show ?thesis by blast
  qed
  from fwd bwd show ?thesis by blast
qed

theorem factory_reset_never_promotes_witness:
  "encode_send_request
      \<lparr>uart_write = (\<lambda>msg. Some (length msg)), uart_rx = STX # str_encode ''916872'' @ [ETX]\<rparr>
      CFG_FR [] = Inr ANS_STATUS_DATA_SENT
   \<and> receive_decode_answer
      \<lparr>uart_write = (\<lambda>msg. Some (length msg)), uart_rx = STX # str_encode ''916872'' @ [ETX]\<rparr>
     = Inr (ANS_STATUS_DATA_RECEIVED, Some CFG_FA, Some [])
   \<and> factory_reset
      \<lparr>uart_write = (\<lambda>msg. Some (length msg)), uart_rx = STX # str_encode ''916872'' @ [ETX]\<rparr>
     = Inr ANS_STATUS_DATA_RECEIVED
   \<and> factory_reset
      \<lparr>uart_write = (\<lambda>msg. Some (length msg)), uart_rx = STX # str_encode ''FF0070687D'' @ [ETX]\<rparr>
     = Inr ANS_STATUS_SUCCESS
   \<and> receive_decode_answer
      \<lparr>uart_write = (\<lambda>msg. Some (length msg)), uart_rx = STX # str_encode ''FF0070687D'' @ [ETX]\<rparr>
     = Inr (ANS_STATUS_SUCCESS, None, None)"
proof -
  let ?p = "\<lparr>uart_write = (\<lambda>msg. Some (length msg)), uart_rx = STX # str_encode ''916872'' @ [ETX]\<rparr>"
  let ?q = "\<lparr>uart_write = (\<lambda>msg. Some (length msg)), uart_rx = STX # str_encode ''FF0070687D'' @ [ETX]\<rparr>"
  have s: "encode_send_request ?p CFG_FR [] = Inr ANS_STATUS_DATA_SENT"
    by (simp add: encode_send_request_def request_frames)
  have r: "receive_decode_answer ?p = Inr (ANS_STATUS_DATA_RECEIVED, Some CFG_FA, Some [])"
    by (simp add: answer_eval)
  have c1: "factory_reset ?p = Inr ANS_STATUS_DATA_RECEIVED"
    using factory_reset_never_promotes [THEN conjunct1, rule_format, OF conjI [OF s r]] .
  have f: "factory_reset ?q = Inr ANS_STATUS_SUCCESS"
    by (simp add: factory_reset_def encode_send_request_def request_frames answer_eval status_defs)
  have c2: "receive_decode_answer ?q = Inr (ANS_STATUS_SUCCESS, None, None)"
    using factory_reset_never_promotes [THEN conjunct2, rule_format, OF f, THEN conjunct1] .
  from s r c1 f c2 show ?thesis by blast
qed

text \<open>
  Claim C10. When an \<open>ETX\<close> byte arrives before any \<open>STX\<close>, the capture stops there
  with an empty buffer and the call returns \<open>TIMEOUT\<close>, whatever follows in the stream.
\<close>

theorem etx_before_stx_is_timeout:
  assumes "STX \<notin> set pre" and "ETX \<notin> set pre"
  shows "capture False [] (pre @ ETX # post) = []
       \<and> receive_decode_answer (port\<lparr>uart_rx := pre @ ETX # post\<rparr>)
           = Inr (ANS_STATUS_TIMEOUT, None, None)"
  using assms
  by (simp add: capture_stops_at_early_etx receive_decode_answer_def decode_answer_def)

theorem etx_before_stx_is_timeout_witness:
  "STX \<notin> set [0x41] \<and> ETX \<notin> set [0x41]
   \<and> decode_answer (STX # str_encode ''97000000005250'' @ [ETX])
       = Inr (ANS_STATUS_DATA_RECEIVED, Some RTC_RA, Some [0, 0, 0, 0])
   \<and> capture False [] ([0x41] @ ETX # STX # str_encode ''97000000005250'' @ [ETX]) = []
   \<and> receive_decode_answer
        \<lparr>uart_write = (\<lambda>msg. Some (length msg)),
         uart_rx = [0x41] @ ETX # STX # str_encode ''97000000005250'' @ [ETX]\<rparr>
       = Inr (ANS_STATUS_TIMEOUT, None, None)"
proof -
  have h1: "STX \<notin> set [0x41]" and h2: "ETX \<notin> set [0x41]"
    by (simp_all add: STX_def ETX_def)
  show ?thesis
    using h1 h2 decode_rtc_zero
      etx_before_stx_is_timeout [OF h1 h2,
        of "STX # str_encode ''97000000005250'' @ [ETX]"
           "\<lparr>uart_write = (\<lambda>msg. Some (length msg)), uart_rx = []\<rparr>"]
    by simp
qed

subsection \<open>Further operations\<close>

text \<open>The other operations that return a status keep \<open>DATA_RECEIVED\<close> in the same way.\<close>

lemma opcode_mismatch_other_operations:
  assumes "receive_decode_answer port = Inr (ANS_STATUS_DATA_RECEIVED, Some B, data)"
  shows "encode_send_request port RTC_RR [] = Inr ANS_STATUS_DATA_SENT \<Longrightarrow> B \<noteq> RTC_RA
            \<Longrightarrow> rtc_read port = Inr (ANS_STATUS_DATA_RECEIVED, None)"
    and "encode_send_request port PLD_DR [] = Inr ANS_STATUS_DATA_SENT \<Longrightarrow> B \<noteq> PLD_DA
            \<Longrightarrow> dequeue_payload port = Inr (ANS_STATUS_DATA_RECEIVED, None)"
    and "encode_send_request port PLD_FR [] = Inr ANS_STATUS_DATA_SENT \<Longrightarrow> B \<noteq> PLD_FA
            \<Longrightarrow> clear_free_payloads port = Inr ANS_STATUS_DATA_RECEIVED"
  using assms
  by (simp_all add: rtc_read_def dequeue_payload_def clear_free_payloads_def)

end
